theory Spec2Isabelle
  imports Main "HOL-Library.Word" "HOL-Library.Sublist"
begin

section \<open>The aria2 download monitor of Cloudreve (pkg/aria2/Monitor.go)\<close>

text \<open>
  The monitor polls an external download engine, copies what the engine reports into the
  persisted download record, validates the record when its size or path changes, and runs
  a handler when the engine reports a final status. Every collaborator outside Monitor.go
  (the engine's RPC client, the database, the validation hooks, the job pool, the
  dispatcher, the operating system's file calls) is a parameter; every call to one of
  them is recorded, in order, in a call log, and its answer may depend on the whole log
  so far.
\<close>

subsection \<open>Data\<close>

text \<open>A Go \<open>error\<close> is represented by the message that \<open>err.Error()\<close> returns.\<close>

type_synonym error = string

text \<open>
  Modelled from the spec: the status constants of a download record are declared outside
  Monitor.go. Section 4.1 lists them as Waiting, Active, Paused, Complete, Error, Removed
  and Unknown, mapped one to one from the engine's status strings. Monitor.go itself
  names only \<open>Error\<close>.
\<close>

datatype DownloadStatus =
  Waiting_status | Active_status | Paused_status | Complete_status
  | Error_status | Removed_status | Unknown_status

text \<open>
  \<open>model.Download\<close>, with the fields Monitor.go reads or writes. \<open>TotalSize\<close> and
  \<open>DownloadedSize\<close> are \<open>uint64\<close>; \<open>Speed\<close> is a Go \<open>int\<close> (64 bits); \<open>UserID\<close>
  and \<open>TaskID\<close> are identifiers on which no arithmetic is done.
\<close>

record Download =
  GID :: string
  Status :: DownloadStatus
  TotalSize :: "64 word"
  DownloadedSize :: "64 word"
  Speed :: int
  Path :: string
  Parent :: string
  Dst :: string
  UserID :: nat
  TaskID :: nat
  Error :: string
  Attrs :: string

text \<open>\<open>rpc.FileInfo\<close> and \<open>rpc.StatusInfo\<close> of the engine's client library.\<close>

record FileInfo =
  FileInfo_Path :: string

record StatusInfo =
  Gid :: string
  Status_str :: string
  TotalLength :: string
  CompletedLength :: string
  DownloadSpeed :: string
  Dir :: string
  Files :: "FileInfo list"
  FollowedBy :: "string list"
  ErrorMessage :: string

text \<open>\<open>local.FileStream\<close>, the description of the file in progress handed to the hooks.\<close>

record FileStream =
  Size :: "64 word"
  Name :: string

text \<open>Users, file systems and channels are opaque handles; a job is known by its model ID.\<close>

type_synonym User = nat
type_synonym FileSystem = nat
type_synonym Chan = nat

record Job =
  Job_ID :: nat

text \<open>\<open>StatusEvent\<close>, the message that wakes a monitor.\<close>

record StatusEvent =
  StatusEvent_GID :: string
  StatusEvent_Status :: int

text \<open>The calls the monitor makes to its collaborators, with their arguments.\<close>

datatype event =
  EvStatus Download
  | EvCancel Download
  | EvSave Download
  | EvGetOwner Download
  | EvNewFileSystem User
  | EvRecycle FileSystem
  | EvHookValidateFile FileStream FileSystem
  | EvHookValidateCapacityWithoutIncrease FileStream FileSystem
  | EvNewTransferTask nat string string string
  | EvSubmit Job
  | EvRemove string
  | EvIsEmpty string
  | EvRemoveAll string
  | EvGoRemoveTempFolderAfter nat
  | EvSubscribe Chan string
  | EvUnsubscribe string

subsection \<open>The temp storage and the collaborators\<close>

text \<open>
  The temp storage is a table of entries: a path (the list of names from the root) and
  its kind. What a name handed to the operating system denotes in the table, and what a
  call does to the table, is the operating system's business: \<open>os.Remove\<close>,
  \<open>os.RemoveAll\<close> and \<open>util.IsEmpty\<close> (declared outside Monitor.go and built on
  \<open>os.Open\<close>) are collaborators like the others. Each takes the table and a name and
  answers with its result and, for the two removals, the table it leaves.
\<close>

datatype kind = File | Directory

type_synonym fstable = "(string list \<times> kind) list"

text \<open>
  The collaborators. Each answer is a function of the call log so far and of the
  arguments, so a collaborator may answer the same question differently at different
  moments. \<open>json_Marshal\<close> and \<open>ErrUserNotFound\<close> are a library function and a package
  variable declared elsewhere.
\<close>

record ext =
  Instance_Status :: "event list \<Rightarrow> Download \<Rightarrow> error + StatusInfo"
  Instance_Cancel :: "event list \<Rightarrow> Download \<Rightarrow> error option"
  Task_Save :: "event list \<Rightarrow> Download \<Rightarrow> error option"
  Task_GetOwner :: "event list \<Rightarrow> Download \<Rightarrow> User option"
  NewFileSystem :: "event list \<Rightarrow> User \<Rightarrow> error + FileSystem"
  HookValidateFile :: "event list \<Rightarrow> FileStream \<Rightarrow> FileSystem \<Rightarrow> error option"
  HookValidateCapacityWithoutIncrease ::
    "event list \<Rightarrow> FileStream \<Rightarrow> FileSystem \<Rightarrow> error option"
  NewTransferTask :: "event list \<Rightarrow> nat \<Rightarrow> string \<Rightarrow> string \<Rightarrow> string \<Rightarrow> error + Job"
  json_Marshal :: "StatusInfo \<Rightarrow> string"
  GetIntSetting :: "string \<Rightarrow> int \<Rightarrow> int"
  ErrUserNotFound :: error
  os_Remove :: "event list \<Rightarrow> fstable \<Rightarrow> string \<Rightarrow> error option \<times> fstable"
  os_RemoveAll :: "event list \<Rightarrow> fstable \<Rightarrow> string \<Rightarrow> error option \<times> fstable"
  util_IsEmpty :: "event list \<Rightarrow> fstable \<Rightarrow> string \<Rightarrow> bool \<times> error option"

subsection \<open>Library functions of Go used by the monitor\<close>

text \<open>
  \<open>strconv.ParseUint(s, 10, 64)\<close> and \<open>strconv.Atoi(s)\<close>; \<open>None\<close> stands for a
  non-nil error (bad syntax or out of range), the only thing the monitor looks at.
\<close>

definition isDigit :: "char \<Rightarrow> bool" where
  "isDigit c = (48 \<le> (of_char c :: int) \<and> (of_char c :: int) \<le> 57)"

fun digits_value :: "int \<Rightarrow> string \<Rightarrow> int option" where
  "digits_value acc [] = Some acc"
| "digits_value acc (c # cs) =
     (if isDigit c then digits_value (acc * 10 + (of_char c - 48)) cs else None)"

definition ParseUint :: "string \<Rightarrow> 64 word option" where
  "ParseUint s =
     (if s = [] then None
      else case digits_value 0 s of
             None \<Rightarrow> None
           | Some n \<Rightarrow> if n < 2 ^ 64 then Some (word_of_int n) else None)"

definition Atoi :: "string \<Rightarrow> int option" where
  "Atoi s =
     (case s of
        [] \<Rightarrow> None
      | c # cs \<Rightarrow>
          let neg = (c = CHR ''-'');
              ds = (if c = CHR ''+'' \<or> c = CHR ''-'' then cs else s)
          in if ds = [] then None
             else case digits_value 0 ds of
                    None \<Rightarrow> None
                  | Some n \<Rightarrow>
                      if \<not> neg \<and> n \<ge> 2 ^ 63 then None
                      else if neg \<and> n > 2 ^ 63 then None
                      else Some (if neg then 0 - n else n))"

text \<open>\<open>filepath.Base\<close> (Unix) and \<open>path.Join\<close> of two elements, with \<open>path.Clean\<close>.\<close>

text \<open>A name cut at its slashes.\<close>

fun split_slash :: "string \<Rightarrow> string list" where
  "split_slash [] = [[]]"
| "split_slash (c # cs) =
     (if c = CHR ''/'' then [] # split_slash cs
      else (case split_slash cs of [] \<Rightarrow> [[c]] | x # xs \<Rightarrow> (c # x) # xs))"

definition filepath_Base :: "string \<Rightarrow> string" where
  "filepath_Base path =
     (if path = [] then ''.''
      else
        let p = rev (dropWhile (\<lambda>c. c = CHR ''/'') (rev path));
            b = rev (takeWhile (\<lambda>c. c \<noteq> CHR ''/'') (rev p))
        in if b = [] then ''/'' else b)"

fun clean_elems :: "bool \<Rightarrow> string list \<Rightarrow> string list \<Rightarrow> string list" where
  "clean_elems rooted out [] = rev out"
| "clean_elems rooted out (e # es) =
     (if e = [] \<or> e = ''.'' then clean_elems rooted out es
      else if e = ''..'' then
        (if out \<noteq> [] \<and> hd out \<noteq> ''..'' then clean_elems rooted (tl out) es
         else if \<not> rooted then clean_elems rooted (e # out) es
         else clean_elems rooted out es)
      else clean_elems rooted (e # out) es)"

fun join_slash :: "string list \<Rightarrow> string" where
  "join_slash [] = []"
| "join_slash [x] = x"
| "join_slash (x # y # ys) = x @ ''/'' @ join_slash (y # ys)"

definition path_Clean :: "string \<Rightarrow> string" where
  "path_Clean path =
     (if path = [] then ''.''
      else
        let rooted = (hd path = CHR ''/'');
            out = (if rooted then ''/'' else []) @ join_slash (clean_elems rooted [] (split_slash path))
        in if out = [] then ''.'' else out)"

definition path_Join :: "string \<Rightarrow> string \<Rightarrow> string" where
  "path_Join a b =
     (if a = [] \<and> b = [] then []
      else if a = [] then path_Clean b
      else path_Clean (a @ ''/'' @ b))"

text \<open>
  Modelled from the spec: \<open>getStatus\<close> is declared outside Monitor.go. Sections 4.1 and 6
  map the engine's status strings one to one to the record's states; any other string is
  Unknown.
\<close>

definition getStatus :: "string \<Rightarrow> DownloadStatus" where
  "getStatus status =
     (if status = ''complete'' then Complete_status
      else if status = ''active'' then Active_status
      else if status = ''waiting'' then Waiting_status
      else if status = ''paused'' then Paused_status
      else if status = ''error'' then Error_status
      else if status = ''removed'' then Removed_status
      else Unknown_status)"

subsection \<open>The monitor and its world\<close>

text \<open>
  \<open>Task\<close>, \<open>Interval\<close> and \<open>notifier\<close> are the fields of the Go struct \<open>Monitor\<close>
  (the interval in seconds). \<open>calls\<close> is the log of calls made so far, \<open>files\<close> the file
  table of the temp storage.
\<close>

record mstate =
  Task :: Download
  Interval :: int
  notifier :: Chan
  calls :: "event list"
  files :: fstable

definition called :: "event \<Rightarrow> mstate \<Rightarrow> mstate" where
  "called e s = s\<lparr>calls := calls s @ [e]\<rparr>"

text \<open>
  \<open>EventNotifier.Subscribe\<close> and \<open>EventNotifier.Unsubscribe\<close> are calls to the dispatcher,
  which is declared outside Monitor.go; as for the other collaborators, the model records
  the calls and their arguments.
\<close>

definition Subscribe :: "Chan \<Rightarrow> string \<Rightarrow> mstate \<Rightarrow> mstate" where
  "Subscribe target gid s = called (EvSubscribe target gid) s"

definition Unsubscribe :: "string \<Rightarrow> mstate \<Rightarrow> mstate" where
  "Unsubscribe gid s = called (EvUnsubscribe gid) s"

text \<open>\<open>monitor.Task.Save()\<close>: the database is asked to store the current record.\<close>

definition Save :: "ext \<Rightarrow> mstate \<Rightarrow> error option \<times> mstate" where
  "Save X s = (Task_Save X (calls s) (Task s), called (EvSave (Task s)) s)"

subsection \<open>The operations of Monitor.go\<close>

text \<open>
  Calls to the logger are left out: they change neither the record nor the temp storage.
  Where the source only logs an error (of \<open>os.Remove\<close>, \<open>os.RemoveAll\<close>, \<open>Cancel\<close>),
  the error is dropped here.
\<close>

definition setErrorStatus :: "ext \<Rightarrow> error \<Rightarrow> mstate \<Rightarrow> mstate" where
  "setErrorStatus X err s =
     snd (Save X (s\<lparr>Task := (Task s)\<lparr>Status := Error_status, Error := err\<rparr>\<rparr>))"

definition RemoveTempFolder :: "ext \<Rightarrow> mstate \<Rightarrow> mstate" where
  "RemoveTempFolder X s =
     (let (err, fs) = os_RemoveAll X (calls s) (files s) (Parent (Task s))
      in (called (EvRemoveAll (Parent (Task s))) s)\<lparr>files := fs\<rparr>)"

definition RemoveTempFile :: "ext \<Rightarrow> mstate \<Rightarrow> mstate" where
  "RemoveTempFile X s =
     (let (err, fs1) = os_Remove X (calls s) (files s) (Path (Task s));
          s1 = (called (EvRemove (Path (Task s))) s)\<lparr>files := fs1\<rparr>;
          (empty, err2) = util_IsEmpty X (calls s1) (files s1) (Parent (Task s1));
          s2 = called (EvIsEmpty (Parent (Task s1))) s1
      in if empty then
           (let (err3, fs2) = os_Remove X (calls s2) (files s2) (Parent (Task s2))
            in (called (EvRemove (Parent (Task s2))) s2)\<lparr>files := fs2\<rparr>)
         else s2)"

text \<open>
  \<open>Cancel\<close>: the answer of the engine is only logged. The goroutine started at the end
  sleeps 60 seconds and then runs \<open>RemoveTempFolder\<close> on the same monitor; the call log
  records that it was started, not its later run.
\<close>

definition Cancel :: "ext \<Rightarrow> mstate \<Rightarrow> mstate" where
  "Cancel X s =
     (let err = Instance_Cancel X (calls s) (Task s);
          s1 = called (EvCancel (Task s)) s
      in called (EvGoRemoveTempFolderAfter 60) s1)"

definition ValidateFile :: "ext \<Rightarrow> mstate \<Rightarrow> error option \<times> mstate" where
  "ValidateFile X s =
     (let s1 = called (EvGetOwner (Task s)) s in
      case Task_GetOwner X (calls s) (Task s) of
        None \<Rightarrow> (Some (ErrUserNotFound X), s1)
      | Some user \<Rightarrow>
          (let s2 = called (EvNewFileSystem user) s1 in
           case NewFileSystem X (calls s1) user of
             Inl err \<Rightarrow> (Some err, s2)
           | Inr fs \<Rightarrow>
               (let ctx = \<lparr>Size = TotalSize (Task s), Name = filepath_Base (Path (Task s))\<rparr>;
                    s3 = called (EvHookValidateFile ctx fs) s2 in
                case HookValidateFile X (calls s2) ctx fs of
                  Some err \<Rightarrow> (Some err, called (EvRecycle fs) s3)
                | None \<Rightarrow>
                    (let s4 = called (EvHookValidateCapacityWithoutIncrease ctx fs) s3 in
                     case HookValidateCapacityWithoutIncrease X (calls s3) ctx fs of
                       Some err \<Rightarrow> (Some err, called (EvRecycle fs) s4)
                     | None \<Rightarrow> (None, called (EvRecycle fs) s4)))))"

text \<open>
  The record as \<open>UpdateTaskInfo\<close> has filled it in from the engine's answer when it calls
  \<open>Save\<close> (the assignments of lines 115 to 143): an unparsable number becomes zero, and
  the path is replaced only when the answer lists a file.
\<close>

definition reconciled :: "ext \<Rightarrow> StatusInfo \<Rightarrow> Download \<Rightarrow> Download" where
  "reconciled X status t =
     (let total = (case ParseUint (TotalLength status) of None \<Rightarrow> 0 | Some v \<Rightarrow> v);
          downloaded = (case ParseUint (CompletedLength status) of None \<Rightarrow> 0 | Some v \<Rightarrow> v);
          speed = (case Atoi (DownloadSpeed status) of None \<Rightarrow> 0 | Some v \<Rightarrow> v);
          t1 = t\<lparr>GID := Gid status, Status := getStatus (Status_str status),
                 TotalSize := total, DownloadedSize := downloaded,
                 Parent := Dir status, Speed := speed\<rparr>;
          t2 = (if length (Files status) > 0
                then t1\<lparr>Path := FileInfo_Path (Files status ! 0)\<rparr> else t1)
      in t2\<lparr>Attrs := json_Marshal X status\<rparr>)"

definition UpdateTaskInfo :: "ext \<Rightarrow> StatusInfo \<Rightarrow> mstate \<Rightarrow> error option \<times> mstate" where
  "UpdateTaskInfo X status s =
     (let originSize = TotalSize (Task s);
          originPath = Path (Task s);
          (err, s1) = Save X (s\<lparr>Task := reconciled X status (Task s)\<rparr>)
      in if err \<noteq> None then (None, s1)
         else if originSize \<noteq> TotalSize (Task s1) \<or> originPath \<noteq> Path (Task s1) then
           (case ValidateFile X s1 of
              (Some e, s2) \<Rightarrow> (Some e, Cancel X s2)
            | (None, s2) \<Rightarrow> (None, s2))
         else (None, s1))"

definition Error_handler :: "ext \<Rightarrow> StatusInfo \<Rightarrow> mstate \<Rightarrow> bool \<times> mstate" where
  "Error_handler X status s =
     (True, RemoveTempFolder X (setErrorStatus X (ErrorMessage status) s))"

definition Complete :: "ext \<Rightarrow> StatusInfo \<Rightarrow> mstate \<Rightarrow> bool \<times> mstate" where
  "Complete X status s =
     (let dst = path_Join (Dst (Task s)) (filepath_Base (Path (Task s)));
          s1 = called (EvNewTransferTask (UserID (Task s)) dst (Path (Task s)) (Parent (Task s))) s
      in case NewTransferTask X (calls s) (UserID (Task s)) dst (Path (Task s)) (Parent (Task s)) of
           Inl err \<Rightarrow> (True, setErrorStatus X err s1)
         | Inr job \<Rightarrow>
             (let s2 = called (EvSubmit job) s1;
                  s3 = s2\<lparr>Task := (Task s2)\<lparr>TaskID := Job_ID job\<rparr>\<rparr>
              in (True, snd (Save X s3))))"

text \<open>\<open>Update\<close>: one pass; the result says whether monitoring stops.\<close>

definition Update :: "ext \<Rightarrow> mstate \<Rightarrow> bool \<times> mstate" where
  "Update X s =
     (let s0 = called (EvStatus (Task s)) s in
      case Instance_Status X (calls s) (Task s) of
        Inl err \<Rightarrow> (True, RemoveTempFolder X (setErrorStatus X err s0))
      | Inr status \<Rightarrow>
          if length (FollowedBy status) > 0 then
            (False, snd (Save X (s0\<lparr>Task := (Task s0)\<lparr>GID := FollowedBy status ! 0\<rparr>\<rparr>)))
          else
            (case UpdateTaskInfo X status s0 of
               (Some err, s1) \<Rightarrow> (True, setErrorStatus X err s1)
             | (None, s1) \<Rightarrow>
                 if Status_str status = ''complete'' then Complete X status s1
                 else if Status_str status = ''error'' then Error_handler X status s1
                 else if Status_str status = ''active'' \<or> Status_str status = ''waiting''
                         \<or> Status_str status = ''paused'' then (False, s1)
                 else if Status_str status = ''removed'' then (True, s1)
                 else (True, s1)))"

text \<open>
  \<open>Loop\<close>. Each element of the wake list is one firing of the \<open>select\<close>: a message on
  the notifier channel or the timer. The list is the fuel of the loop: \<open>Loop_select\<close>
  says whether the loop has returned, and with false the loop is still waiting in its
  \<open>select\<close>, with the current interval and state. The argument of the deferred
  \<open>Unsubscribe\<close> is evaluated when the \<open>defer\<close> statement runs, at the start of
  \<open>Loop\<close>; the call itself runs when \<open>Loop\<close> returns.
\<close>

datatype wake = Notified StatusEvent | TimerFired

fun Loop_select :: "ext \<Rightarrow> wake list \<Rightarrow> int \<Rightarrow> mstate \<Rightarrow> bool \<times> int \<times> mstate" where
  "Loop_select X [] interval s = (False, interval, s)"
| "Loop_select X (Notified ev # ws) interval s =
     (case Update X s of
        (True, s1) \<Rightarrow> (True, interval, s1)
      | (False, s1) \<Rightarrow> Loop_select X ws interval s1)"
| "Loop_select X (TimerFired # ws) interval s =
     (case Update X s of
        (True, s1) \<Rightarrow> (True, Interval s, s1)
      | (False, s1) \<Rightarrow> Loop_select X ws (Interval s) s1)"

definition Loop :: "ext \<Rightarrow> wake list \<Rightarrow> mstate \<Rightarrow> mstate option" where
  "Loop X ws s =
     (let deferred_gid = GID (Task s) in
      case Loop_select X ws 0 s of
        (True, interval, s1) \<Rightarrow> Some (Unsubscribe deferred_gid s1)
      | (False, interval, s1) \<Rightarrow> None)"

text \<open>
  \<open>NewMonitor\<close> starts \<open>Loop\<close> as a goroutine (line 42) and only then subscribes the
  notifier under the identifier the task has at that moment (line 43); nothing orders
  the constructor's \<open>Subscribe\<close> and the passes of the loop. \<open>k\<close> is the schedule: the
  number of wake-ups the loop serves before the constructor's \<open>Subscribe\<close> reads the
  task's identifier (0 when the constructor is not delayed). The loop's \<open>defer\<close>
  statement runs before its first pass, while the identifier is still the one the
  constructor was given. When the loop returns within its first \<open>k\<close> wake-ups, its
  deferred \<open>Unsubscribe\<close> runs before the constructor's \<open>Subscribe\<close>. \<open>w\<close> is the world
  the monitor is created in; its \<open>notifier\<close> is the channel that \<open>make\<close> returns. The
  result is \<open>None\<close> while the loop has not returned.
\<close>

definition NewMonitor :: "ext \<Rightarrow> wake list \<Rightarrow> nat \<Rightarrow> Download \<Rightarrow> mstate \<Rightarrow> mstate option" where
  "NewMonitor X ws k task w =
     (let monitor = w\<lparr>Task := task, Interval := GetIntSetting X ''aria2_interval'' 10\<rparr>;
          deferred_gid = GID (Task monitor)
      in case Loop_select X (take k ws) 0 monitor of
           (True, interval, s1) \<Rightarrow>
             (let s2 = Unsubscribe deferred_gid s1
              in Some (Subscribe (notifier s2) (GID (Task s2)) s2))
         | (False, interval, s1) \<Rightarrow>
             (let s2 = Subscribe (notifier s1) (GID (Task s1)) s1
              in case Loop_select X (drop k ws) interval s2 of
                   (True, interval2, s3) \<Rightarrow> Some (Unsubscribe deferred_gid s3)
                 | (False, interval2, s3) \<Rightarrow> None))"

text \<open>
  The record the database holds: the argument of the latest \<open>Save\<close> in the call log that
  the database accepted (read off the log from its end).
\<close>

fun stored :: "ext \<Rightarrow> event list \<Rightarrow> Download option" where
  "stored X [] = None"
| "stored X (EvSave t # earlier) =
     (if Task_Save X (rev earlier) t = None then Some t else stored X earlier)"
| "stored X (e # earlier) = stored X earlier"

definition persisted :: "ext \<Rightarrow> event list \<Rightarrow> Download option" where
  "persisted X h = stored X (rev h)"

subsection \<open>Concrete worlds\<close>

text \<open>
  A task that has been downloading for a while, a temp storage with its directory, and a
  family of collaborators whose answers are fixed by a few arguments: the engine's answer
  and the database's answer (both may depend on the call log), the owner, the verdicts of
  the two hooks and the result of creating a transfer job. In these worlds the process
  has no permission on the temp storage: the operating system refuses every removal and
  every reading of a directory and leaves the table as it is (\<open>os.RemoveAll\<close> of the empty
  name does nothing and reports no error, as it does everywhere).
\<close>

definition a_task :: Download where
  "a_task = \<lparr>GID = ''g1'', Status = Active_status, TotalSize = 5, DownloadedSize = 3,
              Speed = 7, Path = ''/tmp/aria2/1/old.bin'', Parent = ''/tmp/aria2/1'',
              Dst = ''/home'', UserID = 1, TaskID = 0, Error = [], Attrs = []\<rparr>"

definition a_table :: fstable where
  "a_table = [([''tmp''], Directory), ([''tmp'', ''aria2''], Directory),
              ([''tmp'', ''aria2'', ''1''], Directory),
              ([''tmp'', ''aria2'', ''1'', ''old.bin''], File),
              ([''tmp'', ''aria2'', ''2''], Directory)]"

definition a_world :: mstate where
  "a_world = \<lparr>Task = a_task, Interval = 10, notifier = 0, calls = [], files = a_table\<rparr>"

definition an_ext ::
  "(event list \<Rightarrow> error + StatusInfo) \<Rightarrow> (event list \<Rightarrow> error option) \<Rightarrow> User option
     \<Rightarrow> error option \<Rightarrow> error option \<Rightarrow> error + Job \<Rightarrow> ext" where
  "an_ext st sv owner vf vc job =
     \<lparr>Instance_Status = (\<lambda>h t. st h), Instance_Cancel = (\<lambda>h t. None),
      Task_Save = (\<lambda>h t. sv h), Task_GetOwner = (\<lambda>h t. owner),
      NewFileSystem = (\<lambda>h u. Inr 1), HookValidateFile = (\<lambda>h c f. vf),
      HookValidateCapacityWithoutIncrease = (\<lambda>h c f. vc),
      NewTransferTask = (\<lambda>h u d p q. job), json_Marshal = (\<lambda>i. Status_str i),
      GetIntSetting = (\<lambda>k d. d), ErrUserNotFound = ''user not found'',
      os_Remove = (\<lambda>h fs name. (Some ''permission denied'', fs)),
      os_RemoveAll = (\<lambda>h fs name. (if name = [] then None else Some ''permission denied'', fs)),
      util_IsEmpty = (\<lambda>h fs name. (False, Some ''permission denied''))\<rparr>"

text \<open>
  A small operating system that does serve the temp storage, without links or
  permissions. It serves absolute names in canonical form only (single slashes, no dot
  elements, no trailing slash) and refuses every other name, leaving the table as it is;
  \<open>os.RemoveAll\<close> of the empty name does nothing. \<open>plain_os\<close> puts it into a world.
\<close>

definition plain_name :: "string \<Rightarrow> string list option" where
  "plain_name name =
     (case split_slash name of
        [] \<Rightarrow> None
      | e # es \<Rightarrow>
          if e = [] \<and> es \<noteq> [] \<and> list_all (\<lambda>x. x \<noteq> [] \<and> x \<noteq> ''.'' \<and> x \<noteq> ''..'') es
          then Some es else None)"

definition plain_Remove :: "fstable \<Rightarrow> string \<Rightarrow> error option \<times> fstable" where
  "plain_Remove fs name =
     (case plain_name name of
        None \<Rightarrow> (Some ''name not served'', fs)
      | Some p \<Rightarrow>
          (case map_of fs p of
             None \<Rightarrow> (Some ''no such file or directory'', fs)
           | Some File \<Rightarrow> (None, filter (\<lambda>e. fst e \<noteq> p) fs)
           | Some Directory \<Rightarrow>
               if list_ex (\<lambda>e. strict_prefix p (fst e)) fs
               then (Some ''directory not empty'', fs)
               else (None, filter (\<lambda>e. fst e \<noteq> p) fs)))"

definition plain_RemoveAll :: "fstable \<Rightarrow> string \<Rightarrow> error option \<times> fstable" where
  "plain_RemoveAll fs name =
     (if name = [] then (None, fs)
      else case plain_name name of
             None \<Rightarrow> (Some ''name not served'', fs)
           | Some p \<Rightarrow> (None, filter (\<lambda>e. \<not> prefix p (fst e)) fs))"

definition plain_IsEmpty :: "fstable \<Rightarrow> string \<Rightarrow> bool \<times> error option" where
  "plain_IsEmpty fs name =
     (case plain_name name of
        None \<Rightarrow> (False, Some ''name not served'')
      | Some p \<Rightarrow>
          (case map_of fs p of
             None \<Rightarrow> (False, Some ''no such file or directory'')
           | Some File \<Rightarrow> (False, Some ''not a directory'')
           | Some Directory \<Rightarrow> (\<not> list_ex (\<lambda>e. strict_prefix p (fst e)) fs, None)))"

definition plain_os :: "ext \<Rightarrow> ext" where
  "plain_os X = X\<lparr>os_Remove := (\<lambda>h. plain_Remove), os_RemoveAll := (\<lambda>h. plain_RemoveAll),
                   util_IsEmpty := (\<lambda>h. plain_IsEmpty)\<rparr>"

definition a_status :: StatusInfo where
  "a_status = \<lparr>Gid = ''g1'', Status_str = ''active'', TotalLength = ''1000'',
                CompletedLength = ''500'', DownloadSpeed = ''20'', Dir = ''/tmp/aria2/1'',
                Files = [\<lparr>FileInfo_Path = ''/tmp/aria2/1/file.iso''\<rparr>], FollowedBy = [],
                ErrorMessage = []\<rparr>"

text \<open>The engine redirects to \<open>g2\<close>; the database stores what it is given.\<close>

definition redirect_status :: StatusInfo where
  "redirect_status = a_status\<lparr>Status_str := ''complete'', TotalLength := ''abc'',
                               FollowedBy := [''g2'', ''g3'']\<rparr>"

definition redirect_ext :: ext where
  "redirect_ext = an_ext (\<lambda>h. Inr redirect_status) (\<lambda>h. None) (Some 1) None None (Inr \<lparr>Job_ID = 9\<rparr>)"

text \<open>The engine cannot be reached.\<close>

definition unreachable_ext :: ext where
  "unreachable_ext = an_ext (\<lambda>h. Inl ''connection refused'') (\<lambda>h. None) (Some 1) None None (Inl [])"

text \<open>Calls that delete from the temp storage, and the calls made between two states.\<close>

fun is_cleanup_call :: "event \<Rightarrow> bool" where
  "is_cleanup_call (EvRemoveAll p) = True"
| "is_cleanup_call (EvRemove p) = True"
| "is_cleanup_call c = False"

definition new_calls :: "mstate \<Rightarrow> mstate \<Rightarrow> event list" where
  "new_calls s s' = drop (length (calls s)) (calls s')"

text \<open>
  The engine reports an error; in the further worlds the file is also too large for its
  owner, or the answer also carries a redirect, or the engine reports no directory (in a
  world whose operating system does serve the temp storage).
\<close>

definition error_status :: StatusInfo where
  "error_status = a_status\<lparr>Status_str := ''error'', ErrorMessage := ''disk full''\<rparr>"

definition engine_error_ext :: ext where
  "engine_error_ext = an_ext (\<lambda>h. Inr error_status) (\<lambda>h. None) (Some 1) None None (Inl [])"

definition engine_error_too_large_ext :: ext where
  "engine_error_too_large_ext =
     an_ext (\<lambda>h. Inr error_status) (\<lambda>h. None) (Some 1) (Some ''file too large'') None (Inl [])"

definition engine_error_redirect_ext :: ext where
  "engine_error_redirect_ext =
     an_ext (\<lambda>h. Inr (error_status\<lparr>FollowedBy := [''g2'']\<rparr>)) (\<lambda>h. None) (Some 1) None None (Inl [])"

definition engine_error_no_dir_ext :: ext where
  "engine_error_no_dir_ext =
     plain_os (an_ext (\<lambda>h. Inr (error_status\<lparr>Dir := []\<rparr>)) (\<lambda>h. None) (Some 1) None None
                 (Inl []))"

text \<open>The engine reports completion; the job is created, or is refused, or the file is too
  large for its owner.\<close>

definition complete_status :: StatusInfo where
  "complete_status = a_status\<lparr>Status_str := ''complete''\<rparr>"

definition complete_ext :: ext where
  "complete_ext = an_ext (\<lambda>h. Inr complete_status) (\<lambda>h. None) (Some 1) None None (Inr \<lparr>Job_ID = 9\<rparr>)"

definition no_job_ext :: ext where
  "no_job_ext = an_ext (\<lambda>h. Inr complete_status) (\<lambda>h. None) (Some 1) None None (Inl ''no such user'')"

definition complete_too_large_ext :: ext where
  "complete_too_large_ext =
     an_ext (\<lambda>h. Inr complete_status) (\<lambda>h. None) (Some 1) (Some ''file too large'') None (Inr \<lparr>Job_ID = 9\<rparr>)"

text \<open>The download is active, the file is too large, and the engine refuses the cancel.\<close>

definition too_large_ext :: ext where
  "too_large_ext =
     (an_ext (\<lambda>h. Inr a_status) (\<lambda>h. None) (Some 1) (Some ''file too large'') None (Inl []))
       \<lparr>Instance_Cancel := (\<lambda>h t. Some ''no such download'')\<rparr>"

text \<open>Calls to the dispatcher, and the state after a number of passes.\<close>

fun is_dispatcher_call :: "event \<Rightarrow> bool" where
  "is_dispatcher_call (EvSubscribe c g) = True"
| "is_dispatcher_call (EvUnsubscribe g) = True"
| "is_dispatcher_call c = False"

fun after_passes :: "ext \<Rightarrow> nat \<Rightarrow> mstate \<Rightarrow> mstate" where
  "after_passes X 0 s = s"
| "after_passes X (Suc n) s = after_passes X n (snd (Update X s))"

text \<open>The engine's numbers cannot be read.\<close>

definition unparsable_status :: StatusInfo where
  "unparsable_status = a_status\<lparr>TotalLength := ''abc'', CompletedLength := [],
                                 DownloadSpeed := ''1e3''\<rparr>"

definition unparsable_ext :: ext where
  "unparsable_ext = an_ext (\<lambda>h. Inr unparsable_status) (\<lambda>h. None) (Some 1) None None (Inl [])"

text \<open>The download is active and everything is in order; or the database refuses to store
  the record while the hook would reject the file.\<close>

definition active_ext :: ext where
  "active_ext = an_ext (\<lambda>h. Inr a_status) (\<lambda>h. None) (Some 1) None None (Inl [])"

definition save_fails_ext :: ext where
  "save_fails_ext =
     an_ext (\<lambda>h. Inr a_status) (\<lambda>h. Some ''database is locked'') (Some 1)
       (Some ''file too large'') None (Inl [])"

text \<open>The owner of the task is gone; or no file system can be created for the owner.\<close>

definition no_owner_ext :: ext where
  "no_owner_ext = an_ext (\<lambda>h. Inr a_status) (\<lambda>h. None) None None None (Inl [])"

definition no_fs_ext :: ext where
  "no_fs_ext = active_ext\<lparr>NewFileSystem := (\<lambda>h u. Inl ''no storage policy'')\<rparr>"

text \<open>A temp directory that holds a second file.\<close>

definition two_files_world :: mstate where
  "two_files_world =
     a_world\<lparr>files := a_table @ [([''tmp'', ''aria2'', ''1'', ''other.bin''], File)]\<rparr>"

text \<open>A task that was never reconciled: its record has no parent directory name yet.\<close>

definition unreconciled_world :: mstate where
  "unreconciled_world = a_world\<lparr>Task := a_task\<lparr>Parent := []\<rparr>\<rparr>"

text \<open>
  A temp directory that is empty (the file was never written), in a world where the
  process may read directories but every removal is refused.
\<close>

definition empty_dir_world :: mstate where
  "empty_dir_world =
     a_world\<lparr>files := [([''tmp''], Directory), ([''tmp'', ''aria2''], Directory),
                        ([''tmp'', ''aria2'', ''1''], Directory)]\<rparr>"

definition readable_ext :: ext where
  "readable_ext = active_ext\<lparr>util_IsEmpty := (\<lambda>h. plain_IsEmpty)\<rparr>"

text \<open>
  A record that the database holds, and a database that refuses the next store and
  accepts the one after it; the hook would reject the file.
\<close>

definition stored_world :: mstate where
  "stored_world = a_world\<lparr>calls := [EvSave a_task]\<rparr>"

definition flaky_ext :: ext where
  "flaky_ext =
     an_ext (\<lambda>h. Inr a_status) (\<lambda>h. if length h = 1 then Some ''database is locked'' else None)
       (Some 1) (Some ''file too large'') None (Inl [])"

text \<open>The engine first redirects to \<open>g2\<close> and then reports that the download was removed;
  the monitor is woken three times.\<close>

definition removed_status :: StatusInfo where
  "removed_status = a_status\<lparr>Gid := ''g2'', Status_str := ''removed''\<rparr>"

definition redirect_then_removed_ext :: ext where
  "redirect_then_removed_ext =
     an_ext (\<lambda>h. if length h < 2 then Inr redirect_status else Inr removed_status)
       (\<lambda>h. None) (Some 1) None None (Inl [])"

definition three_wakes :: "wake list" where
  "three_wakes = [TimerFired, Notified \<lparr>StatusEvent_GID = ''g2'', StatusEvent_Status = 5\<rparr>,
                  TimerFired]"

section \<open>Properties\<close>

subsection \<open>Shared facts\<close>

lemma called_simps:
  "Task (called e s) = Task s"
  "Interval (called e s) = Interval s"
  "notifier (called e s) = notifier s"
  "calls (called e s) = calls s @ [e]"
  "files (called e s) = files s"
  by (simp_all add: called_def)

lemma setErrorStatus_eq:
  "setErrorStatus X err s =
     s\<lparr>Task := (Task s)\<lparr>Status := Error_status, Error := err\<rparr>,
       calls := calls s @ [EvSave ((Task s)\<lparr>Status := Error_status, Error := err\<rparr>)]\<rparr>"
  by (simp add: setErrorStatus_def Save_def called_def)

lemma RemoveTempFolder_eq:
  "RemoveTempFolder X s =
     s\<lparr>calls := calls s @ [EvRemoveAll (Parent (Task s))],
       files := snd (os_RemoveAll X (calls s) (files s) (Parent (Task s)))\<rparr>"
  by (simp add: RemoveTempFolder_def called_def split: prod.splits)

lemma Update_redirect_eq:
  assumes "Instance_Status X (calls s) (Task s) = Inr status" and "FollowedBy status \<noteq> []"
  shows "Update X s =
    (False, s\<lparr>Task := (Task s)\<lparr>GID := hd (FollowedBy status)\<rparr>,
              calls := calls s @ [EvStatus (Task s),
                                  EvSave ((Task s)\<lparr>GID := hd (FollowedBy status)\<rparr>)]\<rparr>)"
  using assms by (simp add: Update_def Save_def called_def hd_conv_nth)

lemma Update_query_failure_eq:
  assumes "Instance_Status X (calls s) (Task s) = Inl err"
  shows "Update X s =
    (True, s\<lparr>Task := (Task s)\<lparr>Status := Error_status, Error := err\<rparr>,
             calls := calls s @ [EvStatus (Task s),
                                 EvSave ((Task s)\<lparr>Status := Error_status, Error := err\<rparr>),
                                 EvRemoveAll (Parent (Task s))],
             files := snd (os_RemoveAll X
                            (calls s @ [EvStatus (Task s),
                                        EvSave ((Task s)\<lparr>Status := Error_status, Error := err\<rparr>)])
                            (files s) (Parent (Task s)))\<rparr>)"
  using assms by (simp add: Update_def setErrorStatus_eq RemoveTempFolder_eq called_def)

lemma Cancel_eq:
  "Cancel X s = s\<lparr>calls := calls s @ [EvCancel (Task s), EvGoRemoveTempFolderAfter 60]\<rparr>"
  by (simp add: Cancel_def called_def)

lemma ValidateFile_frame:
  "Task (snd (ValidateFile X s)) = Task s"
  "files (snd (ValidateFile X s)) = files s"
  "Interval (snd (ValidateFile X s)) = Interval s"
  "notifier (snd (ValidateFile X s)) = notifier s"
  by (simp_all add: ValidateFile_def Let_def called_simps split: option.splits sum.splits)

lemma ValidateFile_calls:
  "\<exists>vs. calls (snd (ValidateFile X s)) = calls s @ vs \<and> \<not> list_ex is_cleanup_call vs"
  by (simp add: ValidateFile_def Let_def called_simps split: option.splits sum.splits)

lemma UpdateTaskInfo_save_failed:
  assumes "Task_Save X (calls s) (reconciled X status (Task s)) \<noteq> None"
  shows "UpdateTaskInfo X status s =
     (None, s\<lparr>Task := reconciled X status (Task s),
              calls := calls s @ [EvSave (reconciled X status (Task s))]\<rparr>)"
  using assms by (simp add: UpdateTaskInfo_def Save_def called_def)

lemma UpdateTaskInfo_unchanged:
  assumes "TotalSize (reconciled X status (Task s)) = TotalSize (Task s)"
    and "Path (reconciled X status (Task s)) = Path (Task s)"
  shows "UpdateTaskInfo X status s =
     (None, s\<lparr>Task := reconciled X status (Task s),
              calls := calls s @ [EvSave (reconciled X status (Task s))]\<rparr>)"
  using assms by (simp add: UpdateTaskInfo_def Save_def called_def)

lemma UpdateTaskInfo_validates:
  assumes "Task_Save X (calls s) (reconciled X status (Task s)) = None"
    and "TotalSize (reconciled X status (Task s)) \<noteq> TotalSize (Task s)
         \<or> Path (reconciled X status (Task s)) \<noteq> Path (Task s)"
  shows "UpdateTaskInfo X status s =
     (case ValidateFile X (s\<lparr>Task := reconciled X status (Task s),
                              calls := calls s @ [EvSave (reconciled X status (Task s))]\<rparr>) of
        (Some e, s2) \<Rightarrow> (Some e, Cancel X s2)
      | (None, s2) \<Rightarrow> (None, s2))"
  using assms by (auto simp add: UpdateTaskInfo_def Save_def called_def)

lemma UpdateTaskInfo_frame:
  "Task (snd (UpdateTaskInfo X status s)) = reconciled X status (Task s)"
  "files (snd (UpdateTaskInfo X status s)) = files s"
  by (simp_all add: UpdateTaskInfo_def Save_def called_simps Cancel_eq ValidateFile_frame
      split_beta split: option.splits)

lemma reconciled_fields:
  "TotalSize (reconciled X status t) = (case ParseUint (TotalLength status) of None \<Rightarrow> 0 | Some v \<Rightarrow> v)"
  "DownloadedSize (reconciled X status t) = (case ParseUint (CompletedLength status) of None \<Rightarrow> 0 | Some v \<Rightarrow> v)"
  "Speed (reconciled X status t) = (case Atoi (DownloadSpeed status) of None \<Rightarrow> 0 | Some v \<Rightarrow> v)"
  "Path (reconciled X status t) = (if Files status = [] then Path t else FileInfo_Path (hd (Files status)))"
  "Parent (reconciled X status t) = Dir status"
  "GID (reconciled X status t) = Gid status"
  "Status (reconciled X status t) = getStatus (Status_str status)"
  "Attrs (reconciled X status t) = json_Marshal X status"
  "Dst (reconciled X status t) = Dst t"
  "UserID (reconciled X status t) = UserID t"
  "TaskID (reconciled X status t) = TaskID t"
  "Error (reconciled X status t) = Error t"
  by (simp_all add: reconciled_def Let_def hd_conv_nth)

lemma Update_reconciles:
  assumes "Instance_Status X (calls s) (Task s) = Inr status" and "FollowedBy status = []"
  shows "Update X s =
     (case UpdateTaskInfo X status (s\<lparr>calls := calls s @ [EvStatus (Task s)]\<rparr>) of
        (Some err, s1) \<Rightarrow> (True, setErrorStatus X err s1)
      | (None, s1) \<Rightarrow>
          if Status_str status = ''complete'' then Complete X status s1
          else if Status_str status = ''error'' then Error_handler X status s1
          else if Status_str status = ''active'' \<or> Status_str status = ''waiting''
                  \<or> Status_str status = ''paused'' then (False, s1)
          else (True, s1))"
  using assms by (simp add: Update_def called_def split: prod.splits option.splits)

lemma Complete_job:
  assumes "NewTransferTask X (calls s) (UserID (Task s))
             (path_Join (Dst (Task s)) (filepath_Base (Path (Task s))))
             (Path (Task s)) (Parent (Task s)) = Inr job"
  shows "Complete X status s =
    (True, s\<lparr>Task := (Task s)\<lparr>TaskID := Job_ID job\<rparr>,
             calls := calls s @
               [EvNewTransferTask (UserID (Task s))
                  (path_Join (Dst (Task s)) (filepath_Base (Path (Task s))))
                  (Path (Task s)) (Parent (Task s)),
                EvSubmit job,
                EvSave ((Task s)\<lparr>TaskID := Job_ID job\<rparr>)]\<rparr>)"
  using assms by (simp add: Complete_def Save_def called_def)

lemma Complete_no_job:
  assumes "NewTransferTask X (calls s) (UserID (Task s))
             (path_Join (Dst (Task s)) (filepath_Base (Path (Task s))))
             (Path (Task s)) (Parent (Task s)) = Inl err"
  shows "Complete X status s =
    (True, s\<lparr>Task := (Task s)\<lparr>Status := Error_status, Error := err\<rparr>,
             calls := calls s @
               [EvNewTransferTask (UserID (Task s))
                  (path_Join (Dst (Task s)) (filepath_Base (Path (Task s))))
                  (Path (Task s)) (Parent (Task s)),
                EvSave ((Task s)\<lparr>Status := Error_status, Error := err\<rparr>)]\<rparr>)"
  using assms by (simp add: Complete_def setErrorStatus_eq called_def)

lemmas run_defs =
  Update_def UpdateTaskInfo_def ValidateFile_def Cancel_def Complete_def Error_handler_def
  setErrorStatus_def RemoveTempFolder_def Save_def called_def reconciled_def Let_def
  ParseUint_def Atoi_def isDigit_def getStatus_def filepath_Base_def path_Join_def
  path_Clean_def

lemmas world_defs = an_ext_def a_world_def a_task_def a_status_def a_table_def

lemmas plain_defs =
  plain_os_def plain_name_def plain_Remove_def plain_RemoveAll_def plain_IsEmpty_def

lemma ValidateFile_no_owner:
  assumes "Task_GetOwner X (calls s) (Task s) = None"
  shows "ValidateFile X s = (Some (ErrUserNotFound X), s\<lparr>calls := calls s @ [EvGetOwner (Task s)]\<rparr>)"
  using assms by (simp add: ValidateFile_def called_def)

lemma ValidateFile_no_fs:
  assumes "Task_GetOwner X (calls s) (Task s) = Some u"
    and "NewFileSystem X (calls s @ [EvGetOwner (Task s)]) u = Inl err"
  shows "ValidateFile X s =
     (Some err, s\<lparr>calls := calls s @ [EvGetOwner (Task s), EvNewFileSystem u]\<rparr>)"
  using assms by (simp add: ValidateFile_def called_def)

lemma ValidateFile_checks:
  assumes "Task_GetOwner X (calls s) (Task s) = Some u"
    and "NewFileSystem X (calls s @ [EvGetOwner (Task s)]) u = Inr f"
    and "ctx = \<lparr>Size = TotalSize (Task s), Name = filepath_Base (Path (Task s))\<rparr>"
    and "h = calls s @ [EvGetOwner (Task s), EvNewFileSystem u]"
  shows "ValidateFile X s =
     (case HookValidateFile X h ctx f of
        Some e \<Rightarrow> (Some e, s\<lparr>calls := h @ [EvHookValidateFile ctx f, EvRecycle f]\<rparr>)
      | None \<Rightarrow>
          (HookValidateCapacityWithoutIncrease X (h @ [EvHookValidateFile ctx f]) ctx f,
           s\<lparr>calls := h @ [EvHookValidateFile ctx f,
                            EvHookValidateCapacityWithoutIncrease ctx f, EvRecycle f]\<rparr>))"
  using assms by (simp add: ValidateFile_def called_def Let_def split: option.splits)

lemma RemoveTempFile_eq:
  "RemoveTempFile X s =
     (let fs1 = snd (os_Remove X (calls s) (files s) (Path (Task s)));
          empty = fst (util_IsEmpty X (calls s @ [EvRemove (Path (Task s))]) fs1
                         (Parent (Task s)))
      in s\<lparr>calls := calls s @ [EvRemove (Path (Task s)), EvIsEmpty (Parent (Task s))]
                        @ (if empty then [EvRemove (Parent (Task s))] else []),
            files := (if empty
                      then snd (os_Remove X
                                  (calls s @ [EvRemove (Path (Task s)), EvIsEmpty (Parent (Task s))])
                                  fs1 (Parent (Task s)))
                      else fs1)\<rparr>)"
  by (simp add: RemoveTempFile_def called_def Let_def split_beta)

lemma ValidateFile_dispatch:
  "\<exists>vs. calls (snd (ValidateFile X s)) = calls s @ vs \<and> \<not> list_ex is_dispatcher_call vs"
  by (simp add: ValidateFile_def Let_def called_simps split: option.splits sum.splits)

lemma UpdateTaskInfo_dispatch:
  "\<exists>vs. calls (snd (UpdateTaskInfo X status s)) = calls s @ vs \<and> \<not> list_ex is_dispatcher_call vs"
proof -
  let ?s1 = "s\<lparr>Task := reconciled X status (Task s),
               calls := calls s @ [EvSave (reconciled X status (Task s))]\<rparr>"
  obtain vs where vs: "calls (snd (ValidateFile X ?s1)) = calls ?s1 @ vs"
      "\<not> list_ex is_dispatcher_call vs"
    using ValidateFile_dispatch [of X ?s1] by blast
  consider (failed) "Task_Save X (calls s) (reconciled X status (Task s)) \<noteq> None"
    | (same) "TotalSize (reconciled X status (Task s)) = TotalSize (Task s)"
        "Path (reconciled X status (Task s)) = Path (Task s)"
    | (checked) "Task_Save X (calls s) (reconciled X status (Task s)) = None"
        "TotalSize (reconciled X status (Task s)) \<noteq> TotalSize (Task s)
         \<or> Path (reconciled X status (Task s)) \<noteq> Path (Task s)"
    by blast
  then show ?thesis
  proof cases
    case failed
    then show ?thesis
      by (simp add: UpdateTaskInfo_save_failed)
  next
    case same
    then show ?thesis
      by (simp add: UpdateTaskInfo_unchanged)
  next
    case checked
    then show ?thesis
      using vs by (simp add: UpdateTaskInfo_validates split_beta Cancel_eq list_ex_iff
          split: option.splits)
  qed
qed

lemma Complete_dispatch:
  "\<exists>vs. calls (snd (Complete X status s)) = calls s @ vs \<and> \<not> list_ex is_dispatcher_call vs"
  by (simp add: Complete_def Let_def setErrorStatus_eq Save_def called_def split: sum.splits)

lemma Error_handler_dispatch:
  "\<exists>vs. calls (snd (Error_handler X status s)) = calls s @ vs \<and> \<not> list_ex is_dispatcher_call vs"
  by (simp add: Error_handler_def setErrorStatus_eq RemoveTempFolder_eq)

lemma Update_dispatch:
  "\<exists>vs. calls (snd (Update X s)) = calls s @ vs \<and> \<not> list_ex is_dispatcher_call vs"
proof (cases "Instance_Status X (calls s) (Task s)")
  case (Inl err)
  then show ?thesis
    by (simp add: Update_query_failure_eq)
next
  case (Inr status)
  show ?thesis
  proof (cases "FollowedBy status = []")
    case False
    then show ?thesis
      using Inr by (simp add: Update_redirect_eq)
  next
    case True
    let ?s0 = "s\<lparr>calls := calls s @ [EvStatus (Task s)]\<rparr>"
    let ?s1 = "snd (UpdateTaskInfo X status ?s0)"
    obtain us where us: "calls ?s1 = calls ?s0 @ us" "\<not> list_ex is_dispatcher_call us"
      using UpdateTaskInfo_dispatch [of X status ?s0] by blast
    obtain cs where cs: "calls (snd (Complete X status ?s1)) = calls ?s1 @ cs"
        "\<not> list_ex is_dispatcher_call cs"
      using Complete_dispatch [of X status ?s1] by blast
    obtain es where es: "calls (snd (Error_handler X status ?s1)) = calls ?s1 @ es"
        "\<not> list_ex is_dispatcher_call es"
      using Error_handler_dispatch [of X status ?s1] by blast
    show ?thesis
      using Inr True us cs es
      by (auto simp add: Update_reconciles split_beta setErrorStatus_eq list_ex_iff
          split: option.splits)
  qed
qed

lemma after_passes_dispatch:
  "\<exists>vs. calls (after_passes X n s) = calls s @ vs \<and> \<not> list_ex is_dispatcher_call vs"
proof (induction n arbitrary: s)
  case 0
  then show ?case by simp
next
  case (Suc n)
  obtain us where us: "calls (snd (Update X s)) = calls s @ us" "\<not> list_ex is_dispatcher_call us"
    using Update_dispatch [of X s] by blast
  obtain vs where vs: "calls (after_passes X n (snd (Update X s))) = calls (snd (Update X s)) @ vs"
      "\<not> list_ex is_dispatcher_call vs"
    using Suc.IH [of "snd (Update X s)"] by blast
  show ?case
    using us vs by (auto simp add: list_ex_iff)
qed

lemma Loop_select_stops:
  assumes "n < length ws" and "\<forall>i<n. \<not> fst (Update X (after_passes X i s))"
    and "fst (Update X (after_passes X n s))"
  shows "fst (Loop_select X ws interval s)
       \<and> snd (snd (Loop_select X ws interval s)) = snd (Update X (after_passes X n s))"
  using assms
proof (induction n arbitrary: ws s interval)
  case 0
  then obtain w ws' where ws: "ws = w # ws'"
    by (cases ws) auto
  show ?case
    using 0 ws by (cases w) (simp_all add: split_beta)
next
  case (Suc n)
  then obtain w ws' where ws: "ws = w # ws'"
    by (cases ws) auto
  have first: "\<not> fst (Update X s)"
    using Suc.prems(2) by force
  have rest: "\<forall>i<n. \<not> fst (Update X (after_passes X i (snd (Update X s))))"
    using Suc.prems(2) by force
  have len: "n < length ws'"
    using Suc.prems(1) ws by simp
  have last: "fst (Update X (after_passes X n (snd (Update X s))))"
    using Suc.prems(3) by simp
  have "fst (Loop_select X ws' iv (snd (Update X s)))
      \<and> snd (snd (Loop_select X ws' iv (snd (Update X s))))
          = snd (Update X (after_passes X n (snd (Update X s))))" for iv
    using Suc.IH [OF len rest last] .
  then show ?case
    using ws first by (cases w) (simp_all add: split_beta)
qed

lemma Loop_select_waits:
  assumes "\<forall>i<length ws. \<not> fst (Update X (after_passes X i s))"
  shows "\<not> fst (Loop_select X ws interval s)
       \<and> snd (snd (Loop_select X ws interval s)) = after_passes X (length ws) s"
  using assms
proof (induction ws arbitrary: s interval)
  case Nil
  then show ?case by simp
next
  case (Cons w ws)
  have first: "\<not> fst (Update X s)"
    using Cons.prems by force
  have rest: "\<forall>i<length ws. \<not> fst (Update X (after_passes X i (snd (Update X s))))"
    using Cons.prems by force
  show ?case
    using first Cons.IH [OF rest] by (cases w) (simp_all add: split_beta)
qed

subsection \<open>Redirects\<close>

text \<open>
  Claim C4. When the engine's answer carries a non-empty followed-by list, the pass puts
  the first entry of the list into the task's identifier, asks the database to store the
  record (the call that follows the status query in the log, with the new identifier in
  it), and returns false: monitoring continues.
\<close>

theorem Update_redirect:
  assumes "Instance_Status X (calls s) (Task s) = Inr status" and "FollowedBy status \<noteq> []"
  shows "fst (Update X s) = False
       \<and> GID (Task (snd (Update X s))) = hd (FollowedBy status)
       \<and> calls (snd (Update X s)) =
           calls s @ [EvStatus (Task s), EvSave (Task (snd (Update X s)))]"
  using assms by (simp add: Update_redirect_eq)

theorem Update_redirect_witness:
  "Instance_Status redirect_ext (calls a_world) (Task a_world) = Inr redirect_status
   \<and> FollowedBy redirect_status \<noteq> []
   \<and> fst (Update redirect_ext a_world) = False
   \<and> GID (Task (snd (Update redirect_ext a_world))) = ''g2''
   \<and> calls (snd (Update redirect_ext a_world)) =
         [EvStatus a_task, EvSave (a_task\<lparr>GID := ''g2''\<rparr>)]"
proof -
  have q: "Instance_Status redirect_ext (calls a_world) (Task a_world) = Inr redirect_status"
    by (simp add: redirect_ext_def an_ext_def)
  have f: "FollowedBy redirect_status \<noteq> []"
    by (simp add: redirect_status_def)
  have t: "Task (snd (Update redirect_ext a_world)) = a_task\<lparr>GID := ''g2''\<rparr>"
    using Update_redirect_eq [OF q f] by (simp add: a_world_def redirect_status_def)
  show ?thesis
    using Update_redirect [OF q f] q f t by (simp add: a_world_def redirect_status_def)
qed

text \<open>
  Claim C10. In a pass whose answer carries a non-empty followed-by list, the identifier
  is the only field of the task record that changes: status, sizes, speed, path, parent,
  the stored snapshot, the error message and the link to the transfer job (and the
  destination and owner) are what they were before the pass, and the file table is not
  touched.
\<close>

theorem Update_redirect_frame:
  assumes "Instance_Status X (calls s) (Task s) = Inr status" and "FollowedBy status \<noteq> []"
  shows "Task (snd (Update X s)) = (Task s)\<lparr>GID := hd (FollowedBy status)\<rparr>
       \<and> Status (Task (snd (Update X s))) = Status (Task s)
       \<and> TotalSize (Task (snd (Update X s))) = TotalSize (Task s)
       \<and> DownloadedSize (Task (snd (Update X s))) = DownloadedSize (Task s)
       \<and> Speed (Task (snd (Update X s))) = Speed (Task s)
       \<and> Path (Task (snd (Update X s))) = Path (Task s)
       \<and> Parent (Task (snd (Update X s))) = Parent (Task s)
       \<and> Attrs (Task (snd (Update X s))) = Attrs (Task s)
       \<and> Error (Task (snd (Update X s))) = Error (Task s)
       \<and> TaskID (Task (snd (Update X s))) = TaskID (Task s)
       \<and> Dst (Task (snd (Update X s))) = Dst (Task s)
       \<and> UserID (Task (snd (Update X s))) = UserID (Task s)
       \<and> files (snd (Update X s)) = files s"
  using assms by (simp add: Update_redirect_eq)

theorem Update_redirect_frame_witness:
  "Instance_Status redirect_ext (calls a_world) (Task a_world) = Inr redirect_status
   \<and> FollowedBy redirect_status \<noteq> []
   \<and> ParseUint (TotalLength redirect_status) = None
   \<and> Task (snd (Update redirect_ext a_world)) = a_task\<lparr>GID := ''g2''\<rparr>
   \<and> TotalSize (Task (snd (Update redirect_ext a_world))) = 5
   \<and> Status (Task (snd (Update redirect_ext a_world))) = Active_status"
proof -
  have q: "Instance_Status redirect_ext (calls a_world) (Task a_world) = Inr redirect_status"
    by (simp add: redirect_ext_def an_ext_def)
  have f: "FollowedBy redirect_status \<noteq> []"
    by (simp add: redirect_status_def)
  have p: "ParseUint (TotalLength redirect_status) = None"
    by (simp add: redirect_status_def a_status_def ParseUint_def isDigit_def)
  show ?thesis
    using Update_redirect_frame [OF q f] q f p
    by (simp add: a_world_def a_task_def redirect_status_def)
qed

subsection \<open>Failure of the status query\<close>

text \<open>
  Claim C6, as stated, fails: the pass calls \<open>os.RemoveAll\<close> on the record's parent
  directory name and carries on whatever the call does. Where the operating system
  refuses the removal, the directory is still there after the pass; and for a record that
  has no parent name yet, \<open>os.RemoveAll\<close> is given the empty name and removes nothing.
  Both are shown on concrete worlds; the pass stops monitoring in both.
\<close>

theorem Update_query_failure_counterexample:
  "Instance_Status unreachable_ext (calls a_world) (Task a_world) = Inl ''connection refused''
   \<and> Parent (Task a_world) = ''/tmp/aria2/1''
   \<and> fst (Update unreachable_ext a_world) = True
   \<and> calls (snd (Update unreachable_ext a_world)) =
       [EvStatus a_task,
        EvSave (a_task\<lparr>Status := Error_status, Error := ''connection refused''\<rparr>),
        EvRemoveAll ''/tmp/aria2/1'']
   \<and> files (snd (Update unreachable_ext a_world)) = files a_world
   \<and> map_of (files (snd (Update unreachable_ext a_world))) [''tmp'', ''aria2'', ''1'']
       = Some Directory
   \<and> Instance_Status (plain_os unreachable_ext) (calls unreconciled_world) (Task unreconciled_world)
       = Inl ''connection refused''
   \<and> Parent (Task unreconciled_world) = []
   \<and> fst (Update (plain_os unreachable_ext) unreconciled_world) = True
   \<and> files (snd (Update (plain_os unreachable_ext) unreconciled_world)) = files unreconciled_world"
  by (simp add: unreachable_ext_def unreconciled_world_def run_defs world_defs plain_defs)

text \<open>
  Claim C6, amended. When the status query fails, the pass sets the record's status to
  Error and its error message to the query's failure reason, asks the database to store
  that record, calls \<open>os.RemoveAll\<close> on the record's parent directory name and drops the
  call's result, so that the temp storage after the pass is what that call leaves, and
  returns true: monitoring stops.
\<close>

theorem Update_query_failure:
  assumes "Instance_Status X (calls s) (Task s) = Inl err"
  shows "fst (Update X s) = True
       \<and> Task (snd (Update X s)) = (Task s)\<lparr>Status := Error_status, Error := err\<rparr>
       \<and> calls (snd (Update X s)) =
           calls s @ [EvStatus (Task s), EvSave (Task (snd (Update X s))),
                      EvRemoveAll (Parent (Task s))]
       \<and> files (snd (Update X s)) =
           snd (os_RemoveAll X (calls s @ [EvStatus (Task s), EvSave (Task (snd (Update X s)))])
                  (files s) (Parent (Task s)))"
  using assms by (simp add: Update_query_failure_eq)

theorem Update_query_failure_witness:
  "Instance_Status (plain_os unreachable_ext) (calls a_world) (Task a_world)
     = Inl ''connection refused''
   \<and> fst (Update (plain_os unreachable_ext) a_world) = True
   \<and> Status (Task (snd (Update (plain_os unreachable_ext) a_world))) = Error_status
   \<and> Error (Task (snd (Update (plain_os unreachable_ext) a_world))) = ''connection refused''
   \<and> calls (snd (Update (plain_os unreachable_ext) a_world)) =
       [EvStatus a_task,
        EvSave (a_task\<lparr>Status := Error_status, Error := ''connection refused''\<rparr>),
        EvRemoveAll ''/tmp/aria2/1'']
   \<and> files (snd (Update (plain_os unreachable_ext) a_world)) =
         [([''tmp''], Directory), ([''tmp'', ''aria2''], Directory),
          ([''tmp'', ''aria2'', ''2''], Directory)]"
proof -
  let ?X = "plain_os unreachable_ext"
  have q: "Instance_Status ?X (calls a_world) (Task a_world) = Inl ''connection refused''"
    by (simp add: unreachable_ext_def an_ext_def plain_os_def)
  note T = Update_query_failure [OF q]
  have 1: "fst (Update ?X a_world) = True"
    and 2: "Status (Task (snd (Update ?X a_world))) = Error_status"
    and 3: "Error (Task (snd (Update ?X a_world))) = ''connection refused''"
    using T by simp_all
  have t: "Task (snd (Update ?X a_world))
             = a_task\<lparr>Status := Error_status, Error := ''connection refused''\<rparr>"
    using T by (simp add: a_world_def)
  have 4: "calls (snd (Update ?X a_world)) =
       [EvStatus a_task,
        EvSave (a_task\<lparr>Status := Error_status, Error := ''connection refused''\<rparr>),
        EvRemoveAll ''/tmp/aria2/1'']"
    using T unfolding t by (simp add: a_world_def a_task_def)
  have "files (snd (Update ?X a_world)) =
          snd (os_RemoveAll ?X (calls a_world @ [EvStatus (Task a_world),
                 EvSave (Task (snd (Update ?X a_world)))]) (files a_world) (Parent (Task a_world)))"
    using T by blast
  then have 5: "files (snd (Update ?X a_world)) =
         [([''tmp''], Directory), ([''tmp'', ''aria2''], Directory),
          ([''tmp'', ''aria2'', ''2''], Directory)]"
    by (simp add: world_defs plain_defs)
  show ?thesis
    using q 1 2 3 4 5 by blast
qed

subsection \<open>Failure of validation\<close>

text \<open>
  Claim C3. In a pass in which validation fails (the record was stored, its size or path
  had changed, and \<open>ValidateFile\<close> returned an error), the engine is asked to cancel the
  task and the goroutine that removes the temp directory after 60 seconds is started,
  whatever the engine answers to the cancel; then the record gets the Error status and the
  message of the validation error and the database is asked to store it; the pass makes
  no call that deletes from the temp storage and leaves the file table as it was; and it
  returns true: monitoring stops.
\<close>

theorem Update_validation_failure:
  assumes "Instance_Status X (calls s) (Task s) = Inr status" and "FollowedBy status = []"
    and "t = reconciled X status (Task s)"
    and "s1 = s\<lparr>Task := t, calls := calls s @ [EvStatus (Task s), EvSave t]\<rparr>"
    and "Task_Save X (calls s @ [EvStatus (Task s)]) t = None"
    and "TotalSize t \<noteq> TotalSize (Task s) \<or> Path t \<noteq> Path (Task s)"
    and "fst (ValidateFile X s1) = Some e"
  shows "fst (Update X s) = True
       \<and> Task (snd (Update X s)) = t\<lparr>Status := Error_status, Error := e\<rparr>
       \<and> calls (snd (Update X s)) =
           calls (snd (ValidateFile X s1))
             @ [EvCancel t, EvGoRemoveTempFolderAfter 60, EvSave (Task (snd (Update X s)))]
       \<and> files (snd (Update X s)) = files s
       \<and> \<not> list_ex is_cleanup_call (new_calls s (snd (Update X s)))"
proof -
  let ?s0 = "s\<lparr>calls := calls s @ [EvStatus (Task s)]\<rparr>"
  let ?v = "snd (ValidateFile X s1)"
  have s1': "s1 = ?s0\<lparr>Task := reconciled X status (Task ?s0),
                         calls := calls ?s0 @ [EvSave (reconciled X status (Task ?s0))]\<rparr>"
    using assms(3,4) by simp
  have "UpdateTaskInfo X status ?s0 =
          (case ValidateFile X s1 of (Some e, s2) \<Rightarrow> (Some e, Cancel X s2) | (None, s2) \<Rightarrow> (None, s2))"
    unfolding s1' using assms(3,5,6) by (intro UpdateTaskInfo_validates) simp_all
  then have u: "UpdateTaskInfo X status ?s0 = (Some e, Cancel X ?v)"
    using assms(7) by (simp add: split_beta)
  have up: "Update X s = (True, setErrorStatus X e (Cancel X ?v))"
    using assms(1,2) u by (simp add: Update_reconciles)
  have tv: "Task ?v = t" and fv: "files ?v = files s"
    using assms(4) by (simp_all add: ValidateFile_frame)
  obtain vs where vs: "calls ?v = calls s1 @ vs" "\<not> list_ex is_cleanup_call vs"
    using ValidateFile_calls [of X s1] by blast
  have c: "calls (snd (Update X s)) =
             calls ?v @ [EvCancel t, EvGoRemoveTempFolderAfter 60,
                         EvSave (t\<lparr>Status := Error_status, Error := e\<rparr>)]"
    using up tv by (simp add: setErrorStatus_eq Cancel_eq)
  have "new_calls s (snd (Update X s)) =
          [EvStatus (Task s), EvSave t] @ vs
            @ [EvCancel t, EvGoRemoveTempFolderAfter 60,
               EvSave (t\<lparr>Status := Error_status, Error := e\<rparr>)]"
    using c vs(1) assms(4) by (simp add: new_calls_def)
  then have n: "\<not> list_ex is_cleanup_call (new_calls s (snd (Update X s)))"
    using vs(2) by (simp add: list_ex_iff)
  show ?thesis
    using up tv fv c n by (simp add: setErrorStatus_eq Cancel_eq)
qed

theorem Update_validation_failure_witness:
  "Instance_Status too_large_ext (calls a_world) (Task a_world) = Inr a_status
   \<and> FollowedBy a_status = []
   \<and> Task_Save too_large_ext (calls a_world @ [EvStatus (Task a_world)])
         (reconciled too_large_ext a_status (Task a_world)) = None
   \<and> TotalSize (reconciled too_large_ext a_status (Task a_world)) \<noteq> TotalSize (Task a_world)
   \<and> fst (ValidateFile too_large_ext
         (a_world\<lparr>Task := reconciled too_large_ext a_status (Task a_world),
                   calls := calls a_world @ [EvStatus (Task a_world),
                              EvSave (reconciled too_large_ext a_status (Task a_world))]\<rparr>))
       = Some ''file too large''
   \<and> Instance_Cancel too_large_ext [] a_task = Some ''no such download''
   \<and> fst (Update too_large_ext a_world) = True
   \<and> Status (Task (snd (Update too_large_ext a_world))) = Error_status
   \<and> Error (Task (snd (Update too_large_ext a_world))) = ''file too large''
   \<and> files (snd (Update too_large_ext a_world)) = files a_world
   \<and> take 2 (drop 6 (calls (snd (Update too_large_ext a_world)))) =
         [EvCancel (reconciled too_large_ext a_status (Task a_world)),
          EvGoRemoveTempFolderAfter 60]"
proof -
  let ?t = "reconciled too_large_ext a_status (Task a_world)"
  let ?s1 = "a_world\<lparr>Task := ?t, calls := calls a_world @ [EvStatus (Task a_world), EvSave ?t]\<rparr>"
  have q: "Instance_Status too_large_ext (calls a_world) (Task a_world) = Inr a_status"
    and sv: "Task_Save too_large_ext (calls a_world @ [EvStatus (Task a_world)]) ?t = None"
    and ic: "Instance_Cancel too_large_ext [] a_task = Some ''no such download''"
    by (simp_all add: too_large_ext_def an_ext_def)
  have f: "FollowedBy a_status = []"
    by (simp add: a_status_def)
  have ch: "TotalSize ?t \<noteq> TotalSize (Task a_world)"
    by (simp add: reconciled_fields a_status_def a_world_def a_task_def ParseUint_def isDigit_def)
  then have ch': "TotalSize ?t \<noteq> TotalSize (Task a_world) \<or> Path ?t \<noteq> Path (Task a_world)"
    by simp
  have vf: "fst (ValidateFile too_large_ext ?s1) = Some ''file too large''"
    by (simp add: too_large_ext_def an_ext_def ValidateFile_def Let_def)
  note T = Update_validation_failure [OF q f refl refl sv ch' vf]
  have 1: "fst (Update too_large_ext a_world) = True"
    and 2: "Status (Task (snd (Update too_large_ext a_world))) = Error_status"
    and 3: "Error (Task (snd (Update too_large_ext a_world))) = ''file too large''"
    and 4: "files (snd (Update too_large_ext a_world)) = files a_world"
    using T by simp_all
  have 5: "take 2 (drop 6 (calls (snd (Update too_large_ext a_world)))) =
         [EvCancel ?t, EvGoRemoveTempFolderAfter 60]"
    by (simp add: too_large_ext_def run_defs world_defs)
  show ?thesis
    using q f sv ch vf ic 1 2 3 4 5 by blast
qed

subsection \<open>The handlers for the final statuses\<close>

text \<open>
  Claim C7, as stated, fails: a pass whose status is \<open>complete\<close> does not reach the
  Complete handler when the answer carries a redirect (the pass then continues monitoring
  and makes no job), nor when validation fails (the pass then records the validation
  error). Both are shown on concrete worlds.
\<close>

theorem Update_complete_counterexample:
  "Instance_Status redirect_ext (calls a_world) (Task a_world) = Inr redirect_status
   \<and> Status_str redirect_status = ''complete''
   \<and> fst (Update redirect_ext a_world) = False
   \<and> calls (snd (Update redirect_ext a_world)) = [EvStatus a_task, EvSave (a_task\<lparr>GID := ''g2''\<rparr>)]
   \<and> Instance_Status complete_too_large_ext (calls a_world) (Task a_world) = Inr complete_status
   \<and> Status_str complete_status = ''complete''
   \<and> Status (Task (snd (Update complete_too_large_ext a_world))) = Error_status
   \<and> TaskID (Task (snd (Update complete_too_large_ext a_world))) = TaskID (Task a_world)
   \<and> \<not> list_ex (\<lambda>c. c = EvSubmit \<lparr>Job_ID = 9\<rparr>) (calls (snd (Update complete_too_large_ext a_world)))"
  by (simp add: redirect_ext_def redirect_status_def complete_too_large_ext_def
      complete_status_def run_defs world_defs)

text \<open>
  Claim C7, amended. In a pass whose status is \<open>complete\<close>, whose answer carries no
  redirect and whose reconciliation returns no error, the Complete handler asks for a
  transfer job with the owner, the destination \<open>dst\<close> joined with the base name of the
  current path, the path as source file and the parent as source directory. When the job
  is created it is submitted to the pool, its identifier is put into the record, the
  database is asked to store the record, and monitoring stops. When the job is refused
  the record gets the Error status and the refusal's message and is stored, and
  monitoring stops. In both cases the file table is untouched.
\<close>

theorem Update_complete:
  assumes "Instance_Status X (calls s) (Task s) = Inr status" and "FollowedBy status = []"
    and "UpdateTaskInfo X status (s\<lparr>calls := calls s @ [EvStatus (Task s)]\<rparr>) = (None, s1)"
    and "Status_str status = ''complete''"
    and "dst = path_Join (Dst (Task s1)) (filepath_Base (Path (Task s1)))"
    and "created = NewTransferTask X (calls s1) (UserID (Task s1)) dst (Path (Task s1)) (Parent (Task s1))"
  shows "fst (Update X s) = True
       \<and> files (snd (Update X s)) = files s
       \<and> (\<forall>job. created = Inr job \<longrightarrow>
             Task (snd (Update X s)) = (Task s1)\<lparr>TaskID := Job_ID job\<rparr>
           \<and> calls (snd (Update X s)) =
               calls s1 @ [EvNewTransferTask (UserID (Task s1)) dst (Path (Task s1)) (Parent (Task s1)),
                           EvSubmit job, EvSave (Task (snd (Update X s)))])
       \<and> (\<forall>err. created = Inl err \<longrightarrow>
             Task (snd (Update X s)) = (Task s1)\<lparr>Status := Error_status, Error := err\<rparr>
           \<and> calls (snd (Update X s)) =
               calls s1 @ [EvNewTransferTask (UserID (Task s1)) dst (Path (Task s1)) (Parent (Task s1)),
                           EvSave (Task (snd (Update X s)))])"
proof -
  have f: "files s1 = files s"
    using UpdateTaskInfo_frame(2) [of X status "s\<lparr>calls := calls s @ [EvStatus (Task s)]\<rparr>"] assms(3)
    by simp
  have u: "Update X s = Complete X status s1"
    using assms(1-4) by (simp add: Update_reconciles)
  show ?thesis
  proof (cases created)
    case (Inl err)
    then show ?thesis
      using assms(5,6) f u Complete_no_job [of X s1 err status] by simp
  next
    case (Inr job)
    then show ?thesis
      using assms(5,6) f u Complete_job [of X s1 job status] by simp
  qed
qed

theorem Update_complete_witness:
  "Instance_Status complete_ext (calls a_world) (Task a_world) = Inr complete_status
   \<and> Instance_Status no_job_ext (calls a_world) (Task a_world) = Inr complete_status
   \<and> FollowedBy complete_status = [] \<and> Status_str complete_status = ''complete''
   \<and> fst (UpdateTaskInfo complete_ext complete_status
             (a_world\<lparr>calls := calls a_world @ [EvStatus (Task a_world)]\<rparr>)) = None
   \<and> fst (UpdateTaskInfo no_job_ext complete_status
             (a_world\<lparr>calls := calls a_world @ [EvStatus (Task a_world)]\<rparr>)) = None
   \<and> fst (Update complete_ext a_world) = True
   \<and> TaskID (Task (snd (Update complete_ext a_world))) = 9
   \<and> Status (Task (snd (Update complete_ext a_world))) = Complete_status
   \<and> take 2 (drop 7 (calls (snd (Update complete_ext a_world)))) =
         [EvNewTransferTask 1 ''/home/file.iso'' ''/tmp/aria2/1/file.iso'' ''/tmp/aria2/1'',
          EvSubmit \<lparr>Job_ID = 9\<rparr>]
   \<and> fst (Update no_job_ext a_world) = True
   \<and> Status (Task (snd (Update no_job_ext a_world))) = Error_status
   \<and> Error (Task (snd (Update no_job_ext a_world))) = ''no such user''
   \<and> files (snd (Update no_job_ext a_world)) = files a_world"
proof -
  let ?s0 = "a_world\<lparr>calls := calls a_world @ [EvStatus (Task a_world)]\<rparr>"
  let ?s1 = "snd (UpdateTaskInfo complete_ext complete_status ?s0)"
  let ?r1 = "snd (UpdateTaskInfo no_job_ext complete_status ?s0)"
  let ?dst = "\<lambda>s. path_Join (Dst (Task s)) (filepath_Base (Path (Task s)))"
  have q: "Instance_Status complete_ext (calls a_world) (Task a_world) = Inr complete_status"
    and q': "Instance_Status no_job_ext (calls a_world) (Task a_world) = Inr complete_status"
    by (simp_all add: complete_ext_def no_job_ext_def an_ext_def)
  have f: "FollowedBy complete_status = []" and c: "Status_str complete_status = ''complete''"
    by (simp_all add: complete_status_def a_status_def)
  have n: "fst (UpdateTaskInfo complete_ext complete_status ?s0) = None"
    and n': "fst (UpdateTaskInfo no_job_ext complete_status ?s0) = None"
    by (simp_all add: complete_ext_def no_job_ext_def complete_status_def run_defs world_defs)
  have u: "UpdateTaskInfo complete_ext complete_status ?s0 = (None, ?s1)"
    and u': "UpdateTaskInfo no_job_ext complete_status ?s0 = (None, ?r1)"
    using n n' by (simp_all add: prod_eq_iff)
  have j: "NewTransferTask complete_ext (calls ?s1) (UserID (Task ?s1)) (?dst ?s1)
             (Path (Task ?s1)) (Parent (Task ?s1)) = Inr \<lparr>Job_ID = 9\<rparr>"
    and j': "NewTransferTask no_job_ext (calls ?r1) (UserID (Task ?r1)) (?dst ?r1)
             (Path (Task ?r1)) (Parent (Task ?r1)) = Inl ''no such user''"
    by (simp_all add: complete_ext_def no_job_ext_def an_ext_def)
  note T = Update_complete [OF q f u c refl refl]
  note T' = Update_complete [OF q' f u' c refl refl]
  have 1: "fst (Update complete_ext a_world) = True" and 6: "fst (Update no_job_ext a_world) = True"
    and 4: "files (snd (Update no_job_ext a_world)) = files a_world"
    using T T' by simp_all
  have t: "Task (snd (Update complete_ext a_world)) = (Task ?s1)\<lparr>TaskID := 9\<rparr>"
    using T j by simp
  have t': "Task (snd (Update no_job_ext a_world))
              = (Task ?r1)\<lparr>Status := Error_status, Error := ''no such user''\<rparr>"
    using T' j' by simp
  have 2: "TaskID (Task (snd (Update complete_ext a_world))) = 9"
      "Status (Task (snd (Update complete_ext a_world))) = Complete_status"
    by (simp_all add: t UpdateTaskInfo_frame reconciled_fields complete_status_def getStatus_def)
  have 3: "Status (Task (snd (Update no_job_ext a_world))) = Error_status"
      "Error (Task (snd (Update no_job_ext a_world))) = ''no such user''"
    by (simp_all add: t')
  have 5: "take 2 (drop 7 (calls (snd (Update complete_ext a_world)))) =
         [EvNewTransferTask 1 ''/home/file.iso'' ''/tmp/aria2/1/file.iso'' ''/tmp/aria2/1'',
          EvSubmit \<lparr>Job_ID = 9\<rparr>]"
    by (simp add: complete_ext_def complete_status_def run_defs world_defs)
  show ?thesis
    using q q' f c n n' 1 6 2 3 4 5 by blast
qed

text \<open>
  Claim C8, as stated, fails: a pass whose status is \<open>error\<close> does not reach the Error
  handler when validation fails (the record then carries the validation error, not the
  engine's message, and nothing is deleted in the pass), nor when the answer carries a
  redirect (the pass then continues monitoring). And when the handler runs, it calls
  \<open>os.RemoveAll\<close> and carries on whatever the call does: where the operating system
  refuses the removal, the directory is still there after the pass, and when the engine
  reports no directory, \<open>os.RemoveAll\<close> is given the empty name and removes nothing.
  All are shown on concrete worlds.
\<close>

theorem Update_engine_error_counterexample:
  "Instance_Status engine_error_too_large_ext (calls a_world) (Task a_world) = Inr error_status
   \<and> Status_str error_status = ''error'' \<and> ErrorMessage error_status = ''disk full''
   \<and> Error (Task (snd (Update engine_error_too_large_ext a_world))) = ''file too large''
   \<and> \<not> list_ex is_cleanup_call (calls (snd (Update engine_error_too_large_ext a_world)))
   \<and> files (snd (Update engine_error_too_large_ext a_world)) = files a_world
   \<and> Instance_Status engine_error_redirect_ext (calls a_world) (Task a_world)
       = Inr (error_status\<lparr>FollowedBy := [''g2'']\<rparr>)
   \<and> Status_str (error_status\<lparr>FollowedBy := [''g2'']\<rparr>) = ''error''
   \<and> fst (Update engine_error_redirect_ext a_world) = False
   \<and> Error (Task (snd (Update engine_error_redirect_ext a_world))) = []
   \<and> Instance_Status engine_error_ext (calls a_world) (Task a_world) = Inr error_status
   \<and> FollowedBy error_status = []
   \<and> fst (Update engine_error_ext a_world) = True
   \<and> Error (Task (snd (Update engine_error_ext a_world))) = ''disk full''
   \<and> last (calls (snd (Update engine_error_ext a_world))) = EvRemoveAll ''/tmp/aria2/1''
   \<and> files (snd (Update engine_error_ext a_world)) = files a_world
   \<and> map_of (files (snd (Update engine_error_ext a_world))) [''tmp'', ''aria2'', ''1'']
       = Some Directory
   \<and> Instance_Status engine_error_no_dir_ext (calls a_world) (Task a_world)
       = Inr (error_status\<lparr>Dir := []\<rparr>)
   \<and> Status_str (error_status\<lparr>Dir := []\<rparr>) = ''error''
   \<and> FollowedBy (error_status\<lparr>Dir := []\<rparr>) = []
   \<and> fst (Update engine_error_no_dir_ext a_world) = True
   \<and> Error (Task (snd (Update engine_error_no_dir_ext a_world))) = ''disk full''
   \<and> last (calls (snd (Update engine_error_no_dir_ext a_world))) = EvRemoveAll []
   \<and> files (snd (Update engine_error_no_dir_ext a_world)) = files a_world"
  by (simp add: engine_error_too_large_ext_def engine_error_redirect_ext_def engine_error_ext_def
      engine_error_no_dir_ext_def error_status_def run_defs world_defs plain_defs)

text \<open>
  Claim C8, amended. In a pass whose status is \<open>error\<close>, whose answer carries no
  redirect and whose reconciliation returns no error, the Error handler gives the record
  the Error status and the engine's error message, asks the database to store it, calls
  \<open>os.RemoveAll\<close> on the temp directory name (the directory the engine reported) and
  drops the call's result, so that the temp storage after the pass is what that call
  leaves, and monitoring stops.
\<close>

theorem Update_engine_error:
  assumes "Instance_Status X (calls s) (Task s) = Inr status" and "FollowedBy status = []"
    and "UpdateTaskInfo X status (s\<lparr>calls := calls s @ [EvStatus (Task s)]\<rparr>) = (None, s1)"
    and "Status_str status = ''error''"
  shows "fst (Update X s) = True
       \<and> Task (snd (Update X s)) =
           (Task s1)\<lparr>Status := Error_status, Error := ErrorMessage status\<rparr>
       \<and> calls (snd (Update X s)) =
           calls s1 @ [EvSave (Task (snd (Update X s))), EvRemoveAll (Dir status)]
       \<and> files (snd (Update X s)) =
           snd (os_RemoveAll X (calls s1 @ [EvSave (Task (snd (Update X s)))])
                  (files s) (Dir status))"
proof -
  have t: "Task s1 = reconciled X status (Task s)" and f: "files s1 = files s"
    using UpdateTaskInfo_frame [of X status "s\<lparr>calls := calls s @ [EvStatus (Task s)]\<rparr>"] assms(3)
    by simp_all
  have "Update X s = Error_handler X status s1"
    using assms by (simp add: Update_reconciles)
  then show ?thesis
    using t f
    by (simp add: Error_handler_def setErrorStatus_eq RemoveTempFolder_eq reconciled_fields)
qed

theorem Update_engine_error_witness:
  "Instance_Status (plain_os engine_error_ext) (calls a_world) (Task a_world) = Inr error_status
   \<and> FollowedBy error_status = [] \<and> Status_str error_status = ''error''
   \<and> fst (UpdateTaskInfo (plain_os engine_error_ext) error_status
             (a_world\<lparr>calls := calls a_world @ [EvStatus (Task a_world)]\<rparr>)) = None
   \<and> fst (Update (plain_os engine_error_ext) a_world) = True
   \<and> Error (Task (snd (Update (plain_os engine_error_ext) a_world))) = ''disk full''
   \<and> Status (Task (snd (Update (plain_os engine_error_ext) a_world))) = Error_status
   \<and> last (calls (snd (Update (plain_os engine_error_ext) a_world))) = EvRemoveAll ''/tmp/aria2/1''
   \<and> files (snd (Update (plain_os engine_error_ext) a_world)) =
         [([''tmp''], Directory), ([''tmp'', ''aria2''], Directory),
          ([''tmp'', ''aria2'', ''2''], Directory)]"
proof -
  let ?X = "plain_os engine_error_ext"
  let ?s0 = "a_world\<lparr>calls := calls a_world @ [EvStatus (Task a_world)]\<rparr>"
  let ?s1 = "snd (UpdateTaskInfo ?X error_status ?s0)"
  have q: "Instance_Status ?X (calls a_world) (Task a_world) = Inr error_status"
    by (simp add: engine_error_ext_def an_ext_def plain_os_def)
  have f: "FollowedBy error_status = []" and e: "Status_str error_status = ''error''"
    by (simp_all add: error_status_def a_status_def)
  have n: "fst (UpdateTaskInfo ?X error_status ?s0) = None"
    by (simp add: engine_error_ext_def error_status_def run_defs world_defs plain_os_def)
  then have u: "UpdateTaskInfo ?X error_status ?s0 = (None, ?s1)"
    by (simp add: prod_eq_iff)
  note T = Update_engine_error [OF q f u e]
  have 1: "fst (Update ?X a_world) = True"
    using T by simp
  have 2: "Error (Task (snd (Update ?X a_world))) = ''disk full''"
      "Status (Task (snd (Update ?X a_world))) = Error_status"
    using T by (simp_all add: error_status_def)
  have 3: "last (calls (snd (Update ?X a_world))) = EvRemoveAll ''/tmp/aria2/1''"
    using T by (simp add: error_status_def a_status_def)
  have "files (snd (Update ?X a_world)) =
          snd (os_RemoveAll ?X (calls ?s1 @ [EvSave (Task (snd (Update ?X a_world)))])
                 (files a_world) (Dir error_status))"
    using T by blast
  then have 4: "files (snd (Update ?X a_world)) =
         [([''tmp''], Directory), ([''tmp'', ''aria2''], Directory),
          ([''tmp'', ''aria2'', ''2''], Directory)]"
    by (simp add: error_status_def world_defs plain_defs)
  show ?thesis
    using q f e n 1 2 3 4 by blast
qed

subsection \<open>Reconciliation\<close>

text \<open>
  Claim C5. For every status answer handed to \<open>UpdateTaskInfo\<close>: when the total length
  cannot be parsed the record's total size is zero afterwards, when the completed length
  cannot be parsed the downloaded size is zero, and when the download speed cannot be
  parsed the speed is zero. Reconciliation reports no error for such a field: the only
  error \<open>UpdateTaskInfo\<close> ever returns is the one \<open>ValidateFile\<close> returned on the stored
  record.
\<close>

theorem UpdateTaskInfo_unparsable:
  "(ParseUint (TotalLength status) = None \<longrightarrow>
       TotalSize (Task (snd (UpdateTaskInfo X status s))) = 0)
   \<and> (ParseUint (CompletedLength status) = None \<longrightarrow>
       DownloadedSize (Task (snd (UpdateTaskInfo X status s))) = 0)
   \<and> (Atoi (DownloadSpeed status) = None \<longrightarrow>
       Speed (Task (snd (UpdateTaskInfo X status s))) = 0)
   \<and> (\<forall>e. fst (UpdateTaskInfo X status s) = Some e \<longrightarrow>
         fst (ValidateFile X (s\<lparr>Task := reconciled X status (Task s),
                 calls := calls s @ [EvSave (reconciled X status (Task s))]\<rparr>)) = Some e)"
proof -
  have "fst (ValidateFile X (s\<lparr>Task := reconciled X status (Task s),
                 calls := calls s @ [EvSave (reconciled X status (Task s))]\<rparr>)) = Some e"
    if "fst (UpdateTaskInfo X status s) = Some e" for e
    using that
    by (simp add: UpdateTaskInfo_def Save_def called_def split_beta split: if_splits option.splits)
  then show ?thesis
    by (simp add: UpdateTaskInfo_frame reconciled_fields)
qed

theorem UpdateTaskInfo_unparsable_witness:
  "ParseUint (TotalLength unparsable_status) = None
   \<and> ParseUint (CompletedLength unparsable_status) = None
   \<and> Atoi (DownloadSpeed unparsable_status) = None
   \<and> TotalSize (Task (snd (UpdateTaskInfo unparsable_ext unparsable_status a_world))) = 0
   \<and> DownloadedSize (Task (snd (UpdateTaskInfo unparsable_ext unparsable_status a_world))) = 0
   \<and> Speed (Task (snd (UpdateTaskInfo unparsable_ext unparsable_status a_world))) = 0
   \<and> fst (UpdateTaskInfo unparsable_ext unparsable_status a_world) = None
   \<and> fst (UpdateTaskInfo too_large_ext unparsable_status a_world) = Some ''file too large''
   \<and> fst (ValidateFile too_large_ext
          (a_world\<lparr>Task := reconciled too_large_ext unparsable_status (Task a_world),
             calls := calls a_world @ [EvSave (reconciled too_large_ext unparsable_status (Task a_world))]\<rparr>))
        = Some ''file too large''"
proof -
  have p: "ParseUint (TotalLength unparsable_status) = None"
      "ParseUint (CompletedLength unparsable_status) = None"
      "Atoi (DownloadSpeed unparsable_status) = None"
    by (simp_all add: unparsable_status_def a_status_def ParseUint_def Atoi_def isDigit_def)
  note T = UpdateTaskInfo_unparsable [of unparsable_status unparsable_ext a_world]
  have z: "TotalSize (Task (snd (UpdateTaskInfo unparsable_ext unparsable_status a_world))) = 0"
      "DownloadedSize (Task (snd (UpdateTaskInfo unparsable_ext unparsable_status a_world))) = 0"
      "Speed (Task (snd (UpdateTaskInfo unparsable_ext unparsable_status a_world))) = 0"
    using T p by simp_all
  have n: "fst (UpdateTaskInfo unparsable_ext unparsable_status a_world) = None"
    by (simp add: unparsable_ext_def unparsable_status_def run_defs world_defs)
  have e: "fst (UpdateTaskInfo too_large_ext unparsable_status a_world) = Some ''file too large''"
    by (simp add: too_large_ext_def unparsable_status_def run_defs world_defs)
  have v: "fst (ValidateFile too_large_ext
          (a_world\<lparr>Task := reconciled too_large_ext unparsable_status (Task a_world),
             calls := calls a_world @ [EvSave (reconciled too_large_ext unparsable_status (Task a_world))]\<rparr>))
        = Some ''file too large''"
    using UpdateTaskInfo_unparsable [of unparsable_status too_large_ext a_world] e by blast
  show ?thesis
    using p z n e v by blast
qed

text \<open>
  Claim C2, as stated, fails in three ways. When the database refuses to store the
  record, \<open>UpdateTaskInfo\<close> returns at once with no error and makes no call to
  validation, although the size and the path have changed and the hook would have
  rejected the file. When the file check rejects the file, the capacity check is not run.
  And the comparison is made with the record in memory, not with the record the database
  holds: after a refused store, the next pass stores a total size that differs from the
  stored one (1000 against 5), the store is accepted, and no validation is run.
\<close>

theorem UpdateTaskInfo_validation_counterexample:
  "TotalSize (reconciled save_fails_ext a_status (Task a_world)) = 1000
   \<and> TotalSize (Task a_world) = 5
   \<and> Path (reconciled save_fails_ext a_status (Task a_world)) \<noteq> Path (Task a_world)
   \<and> Task_Save save_fails_ext (calls a_world) (reconciled save_fails_ext a_status (Task a_world))
       = Some ''database is locked''
   \<and> UpdateTaskInfo save_fails_ext a_status a_world =
       (None, a_world\<lparr>Task := reconciled save_fails_ext a_status (Task a_world),
                      calls := [EvSave (reconciled save_fails_ext a_status (Task a_world))]\<rparr>)
   \<and> calls (snd (UpdateTaskInfo too_large_ext a_status a_world)) =
       [EvSave (reconciled too_large_ext a_status a_task),
        EvGetOwner (reconciled too_large_ext a_status a_task),
        EvNewFileSystem 1,
        EvHookValidateFile \<lparr>Size = 1000, Name = ''file.iso''\<rparr> 1,
        EvRecycle 1,
        EvCancel (reconciled too_large_ext a_status a_task),
        EvGoRemoveTempFolderAfter 60]
   \<and> persisted flaky_ext (calls stored_world) = Some a_task
   \<and> persisted flaky_ext (calls (snd (UpdateTaskInfo flaky_ext a_status stored_world)))
       = Some a_task
   \<and> TotalSize a_task = 5
   \<and> TotalSize (reconciled flaky_ext a_status
                   (Task (snd (UpdateTaskInfo flaky_ext a_status stored_world)))) = 1000
   \<and> Task_Save flaky_ext (calls (snd (UpdateTaskInfo flaky_ext a_status stored_world)))
         (reconciled flaky_ext a_status (Task (snd (UpdateTaskInfo flaky_ext a_status stored_world))))
       = None
   \<and> UpdateTaskInfo flaky_ext a_status (snd (UpdateTaskInfo flaky_ext a_status stored_world)) =
       (None, stored_world\<lparr>Task := reconciled flaky_ext a_status a_task,
                 calls := [EvSave a_task, EvSave (reconciled flaky_ext a_status a_task),
                           EvSave (reconciled flaky_ext a_status a_task)]\<rparr>)
   \<and> persisted flaky_ext
         (calls (snd (UpdateTaskInfo flaky_ext a_status
                        (snd (UpdateTaskInfo flaky_ext a_status stored_world)))))
       = Some (reconciled flaky_ext a_status a_task)"
  by (simp add: save_fails_ext_def too_large_ext_def flaky_ext_def stored_world_def persisted_def
      run_defs world_defs)

text \<open>
  Claim C2, amended. \<open>t\<close> is the record filled in from the answer: its total size is the
  parsed total length (zero when unparsable) and its path is the first reported file's
  path (the old path when no file is reported). When storing \<open>t\<close> fails, the failure is
  swallowed: \<open>UpdateTaskInfo\<close> returns no error and has made no call besides the store.
  When storing succeeds and the total size or the path of \<open>t\<close> differs from the one the
  record held in memory before the pass, \<open>UpdateTaskInfo\<close> runs \<open>ValidateFile\<close> after the
  store and returns its verdict. \<open>ValidateFile\<close> looks up the owner, creates the file
  system, runs the file check and, only when the file check passes, the capacity check;
  it stops at the first step that fails.
\<close>

theorem UpdateTaskInfo_validation:
  assumes "t = reconciled X status (Task s)"
    and "s1 = s\<lparr>Task := t, calls := calls s @ [EvSave t]\<rparr>"
    and "ctx = \<lparr>Size = TotalSize t, Name = filepath_Base (Path t)\<rparr>"
  shows "TotalSize t = (case ParseUint (TotalLength status) of None \<Rightarrow> 0 | Some v \<Rightarrow> v)
     \<and> Path t = (if Files status = [] then Path (Task s) else FileInfo_Path (hd (Files status)))
     \<and> (Task_Save X (calls s) t \<noteq> None \<longrightarrow> UpdateTaskInfo X status s = (None, s1))
     \<and> (Task_Save X (calls s) t = None
          \<and> (TotalSize t \<noteq> TotalSize (Task s) \<or> Path t \<noteq> Path (Task s)) \<longrightarrow>
            fst (UpdateTaskInfo X status s) = fst (ValidateFile X s1)
          \<and> prefix (calls (snd (ValidateFile X s1))) (calls (snd (UpdateTaskInfo X status s)))
          \<and> (Task_GetOwner X (calls s1) t = None \<longrightarrow>
                calls (snd (ValidateFile X s1)) = calls s1 @ [EvGetOwner t])
          \<and> (\<forall>u. Task_GetOwner X (calls s1) t = Some u \<longrightarrow>
                (\<forall>err. NewFileSystem X (calls s1 @ [EvGetOwner t]) u = Inl err \<longrightarrow>
                   calls (snd (ValidateFile X s1)) = calls s1 @ [EvGetOwner t, EvNewFileSystem u])
              \<and> (\<forall>f. NewFileSystem X (calls s1 @ [EvGetOwner t]) u = Inr f \<longrightarrow>
                   calls (snd (ValidateFile X s1)) =
                     calls s1 @ [EvGetOwner t, EvNewFileSystem u, EvHookValidateFile ctx f]
                       @ (if HookValidateFile X (calls s1 @ [EvGetOwner t, EvNewFileSystem u]) ctx f = None
                          then [EvHookValidateCapacityWithoutIncrease ctx f] else [])
                       @ [EvRecycle f])))"
proof -
  have ts: "Task s1 = t"
    using assms(2) by simp
  have a: "Task_Save X (calls s) t \<noteq> None \<longrightarrow> UpdateTaskInfo X status s = (None, s1)"
    using assms(1,2) UpdateTaskInfo_save_failed [of X s status] by simp
  have b: "fst (UpdateTaskInfo X status s) = fst (ValidateFile X s1)
        \<and> prefix (calls (snd (ValidateFile X s1))) (calls (snd (UpdateTaskInfo X status s)))"
    if "Task_Save X (calls s) t = None"
      and "TotalSize t \<noteq> TotalSize (Task s) \<or> Path t \<noteq> Path (Task s)"
    using that assms(1,2) UpdateTaskInfo_validates [of X s status]
    by (simp add: split_beta Cancel_eq split: option.splits)
  have c: "Task_GetOwner X (calls s1) t = None \<longrightarrow>
             calls (snd (ValidateFile X s1)) = calls s1 @ [EvGetOwner t]"
    using ValidateFile_no_owner [of X s1] ts by simp
  have d: "calls (snd (ValidateFile X s1)) = calls s1 @ [EvGetOwner t, EvNewFileSystem u]"
    if "Task_GetOwner X (calls s1) t = Some u"
      and "NewFileSystem X (calls s1 @ [EvGetOwner t]) u = Inl err" for u err
    using that ValidateFile_no_fs [of X s1 u err] ts by simp
  have e: "calls (snd (ValidateFile X s1)) =
             calls s1 @ [EvGetOwner t, EvNewFileSystem u, EvHookValidateFile ctx f]
               @ (if HookValidateFile X (calls s1 @ [EvGetOwner t, EvNewFileSystem u]) ctx f = None
                  then [EvHookValidateCapacityWithoutIncrease ctx f] else [])
               @ [EvRecycle f]"
    if "Task_GetOwner X (calls s1) t = Some u"
      and "NewFileSystem X (calls s1 @ [EvGetOwner t]) u = Inr f" for u f
    using that ValidateFile_checks [of X s1 u f ctx "calls s1 @ [EvGetOwner t, EvNewFileSystem u]"]
      ts assms(3)
    by (simp split: option.splits)
  show ?thesis
    using a b c d e assms(1) by (simp add: reconciled_fields)
qed

theorem UpdateTaskInfo_validation_witness:
  "Task_Save save_fails_ext (calls a_world) (reconciled save_fails_ext a_status (Task a_world)) \<noteq> None
   \<and> fst (UpdateTaskInfo save_fails_ext a_status a_world) = None
   \<and> calls (snd (UpdateTaskInfo save_fails_ext a_status a_world))
       = [EvSave (reconciled save_fails_ext a_status (Task a_world))]
   \<and> Task_Save active_ext (calls a_world) (reconciled active_ext a_status (Task a_world)) = None
   \<and> TotalSize (reconciled active_ext a_status (Task a_world)) \<noteq> TotalSize (Task a_world)
   \<and> Task_GetOwner active_ext [EvSave (reconciled active_ext a_status (Task a_world))]
        (reconciled active_ext a_status (Task a_world)) = Some 1
   \<and> NewFileSystem active_ext
        [EvSave (reconciled active_ext a_status (Task a_world)),
         EvGetOwner (reconciled active_ext a_status (Task a_world))] 1 = Inr 1
   \<and> HookValidateFile active_ext
        [EvSave (reconciled active_ext a_status (Task a_world)),
         EvGetOwner (reconciled active_ext a_status (Task a_world)), EvNewFileSystem 1]
        \<lparr>Size = 1000, Name = ''file.iso''\<rparr> 1 = None
   \<and> calls (snd (ValidateFile active_ext
         (a_world\<lparr>Task := reconciled active_ext a_status (Task a_world),
            calls := calls a_world @ [EvSave (reconciled active_ext a_status (Task a_world))]\<rparr>))) =
       [EvSave (reconciled active_ext a_status (Task a_world)),
        EvGetOwner (reconciled active_ext a_status (Task a_world)),
        EvNewFileSystem 1,
        EvHookValidateFile \<lparr>Size = 1000, Name = ''file.iso''\<rparr> 1,
        EvHookValidateCapacityWithoutIncrease \<lparr>Size = 1000, Name = ''file.iso''\<rparr> 1,
        EvRecycle 1]
   \<and> calls (snd (UpdateTaskInfo active_ext a_status a_world)) =
       [EvSave (reconciled active_ext a_status (Task a_world)),
        EvGetOwner (reconciled active_ext a_status (Task a_world)),
        EvNewFileSystem 1,
        EvHookValidateFile \<lparr>Size = 1000, Name = ''file.iso''\<rparr> 1,
        EvHookValidateCapacityWithoutIncrease \<lparr>Size = 1000, Name = ''file.iso''\<rparr> 1,
        EvRecycle 1]
   \<and> Task_Save no_owner_ext (calls a_world) (reconciled no_owner_ext a_status (Task a_world)) = None
   \<and> TotalSize (reconciled no_owner_ext a_status (Task a_world)) \<noteq> TotalSize (Task a_world)
   \<and> Task_GetOwner no_owner_ext [EvSave (reconciled no_owner_ext a_status (Task a_world))]
        (reconciled no_owner_ext a_status (Task a_world)) = None
   \<and> fst (UpdateTaskInfo no_owner_ext a_status a_world) = Some ''user not found''
   \<and> calls (snd (ValidateFile no_owner_ext
         (a_world\<lparr>Task := reconciled no_owner_ext a_status (Task a_world),
            calls := calls a_world @ [EvSave (reconciled no_owner_ext a_status (Task a_world))]\<rparr>))) =
       [EvSave (reconciled no_owner_ext a_status (Task a_world)),
        EvGetOwner (reconciled no_owner_ext a_status (Task a_world))]
   \<and> Task_Save no_fs_ext (calls a_world) (reconciled no_fs_ext a_status (Task a_world)) = None
   \<and> TotalSize (reconciled no_fs_ext a_status (Task a_world)) \<noteq> TotalSize (Task a_world)
   \<and> Task_GetOwner no_fs_ext [EvSave (reconciled no_fs_ext a_status (Task a_world))]
        (reconciled no_fs_ext a_status (Task a_world)) = Some 1
   \<and> NewFileSystem no_fs_ext
        [EvSave (reconciled no_fs_ext a_status (Task a_world)),
         EvGetOwner (reconciled no_fs_ext a_status (Task a_world))] 1 = Inl ''no storage policy''
   \<and> calls (snd (ValidateFile no_fs_ext
         (a_world\<lparr>Task := reconciled no_fs_ext a_status (Task a_world),
            calls := calls a_world @ [EvSave (reconciled no_fs_ext a_status (Task a_world))]\<rparr>))) =
       [EvSave (reconciled no_fs_ext a_status (Task a_world)),
        EvGetOwner (reconciled no_fs_ext a_status (Task a_world)),
        EvNewFileSystem 1]"
proof -
  let ?t = "reconciled save_fails_ext a_status (Task a_world)"
  let ?s1 = "a_world\<lparr>Task := ?t, calls := calls a_world @ [EvSave ?t]\<rparr>"
  let ?r = "reconciled active_ext a_status (Task a_world)"
  let ?r1 = "a_world\<lparr>Task := ?r, calls := calls a_world @ [EvSave ?r]\<rparr>"
  let ?ctx = "\<lparr>Size = TotalSize ?r, Name = filepath_Base (Path ?r)\<rparr>"
  have c0: "calls a_world = []"
    by (simp add: a_world_def)
  have cx: "?ctx = \<lparr>Size = 1000, Name = ''file.iso''\<rparr>"
    by (simp add: reconciled_fields a_status_def ParseUint_def isDigit_def filepath_Base_def)
  have sv: "Task_Save save_fails_ext (calls a_world) ?t \<noteq> None"
    and ok: "Task_Save active_ext (calls a_world) ?r = None"
    and ow: "Task_GetOwner active_ext [EvSave ?r] ?r = Some 1"
    and nf: "NewFileSystem active_ext [EvSave ?r, EvGetOwner ?r] 1 = Inr 1"
    and hv: "HookValidateFile active_ext [EvSave ?r, EvGetOwner ?r, EvNewFileSystem 1]
               \<lparr>Size = 1000, Name = ''file.iso''\<rparr> 1 = None"
    by (simp_all add: save_fails_ext_def active_ext_def an_ext_def)
  have ch: "TotalSize ?r \<noteq> TotalSize (Task a_world)"
    by (simp add: reconciled_fields a_status_def a_world_def a_task_def ParseUint_def isDigit_def)
  note T = UpdateTaskInfo_validation [OF refl refl refl, of save_fails_ext a_status a_world]
  note U = UpdateTaskInfo_validation [OF refl refl refl, of active_ext a_status a_world]
  have 1: "UpdateTaskInfo save_fails_ext a_status a_world = (None, ?s1)"
    using T sv by blast
  have 2: "fst (UpdateTaskInfo save_fails_ext a_status a_world) = None"
      "calls (snd (UpdateTaskInfo save_fails_ext a_status a_world)) = [EvSave ?t]"
    by (simp_all add: 1 c0)
  have v: "calls (snd (ValidateFile active_ext ?r1)) =
       [EvSave ?r, EvGetOwner ?r, EvNewFileSystem 1,
        EvHookValidateFile \<lparr>Size = 1000, Name = ''file.iso''\<rparr> 1,
        EvHookValidateCapacityWithoutIncrease \<lparr>Size = 1000, Name = ''file.iso''\<rparr> 1,
        EvRecycle 1]"
    using U ok ch ow nf hv by (simp add: c0 cx)
  have 3: "calls (snd (UpdateTaskInfo active_ext a_status a_world)) =
       [EvSave ?r, EvGetOwner ?r, EvNewFileSystem 1,
        EvHookValidateFile \<lparr>Size = 1000, Name = ''file.iso''\<rparr> 1,
        EvHookValidateCapacityWithoutIncrease \<lparr>Size = 1000, Name = ''file.iso''\<rparr> 1,
        EvRecycle 1]"
    by (simp add: active_ext_def run_defs world_defs)
  let ?o = "reconciled no_owner_ext a_status (Task a_world)"
  let ?o1 = "a_world\<lparr>Task := ?o, calls := calls a_world @ [EvSave ?o]\<rparr>"
  let ?n = "reconciled no_fs_ext a_status (Task a_world)"
  let ?n1 = "a_world\<lparr>Task := ?n, calls := calls a_world @ [EvSave ?n]\<rparr>"
  have oo: "Task_Save no_owner_ext (calls a_world) ?o = None"
    and og: "Task_GetOwner no_owner_ext [EvSave ?o] ?o = None"
    and no: "Task_Save no_fs_ext (calls a_world) ?n = None"
    and ng: "Task_GetOwner no_fs_ext [EvSave ?n] ?n = Some 1"
    and nn: "NewFileSystem no_fs_ext [EvSave ?n, EvGetOwner ?n] 1 = Inl ''no storage policy''"
    by (simp_all add: no_owner_ext_def no_fs_ext_def active_ext_def an_ext_def)
  have oc: "TotalSize ?o \<noteq> TotalSize (Task a_world)"
    and nc: "TotalSize ?n \<noteq> TotalSize (Task a_world)"
    by (simp_all add: reconciled_fields a_status_def a_world_def a_task_def ParseUint_def isDigit_def)
  note V = UpdateTaskInfo_validation [OF refl refl refl, of no_owner_ext a_status a_world]
  note W = UpdateTaskInfo_validation [OF refl refl refl, of no_fs_ext a_status a_world]
  have 4: "calls (snd (ValidateFile no_owner_ext ?o1)) = [EvSave ?o, EvGetOwner ?o]"
    using V oo oc og by (simp add: c0)
  have 5: "calls (snd (ValidateFile no_fs_ext ?n1)) = [EvSave ?n, EvGetOwner ?n, EvNewFileSystem 1]"
    using W no nc ng nn by (simp add: c0)
  have 6: "fst (UpdateTaskInfo no_owner_ext a_status a_world) = Some ''user not found''"
    by (simp add: no_owner_ext_def run_defs world_defs)
  show ?thesis
    using sv 2 ok ch ow nf hv v 3 oo oc og 6 4 no nc ng nn 5 by blast
qed

subsection \<open>Targeted removal\<close>

text \<open>
  Claim C9, as stated, fails: \<open>RemoveTempFile\<close> calls \<open>os.Remove\<close> and only logs a
  failure. Where the operating system refuses the removal, the tracked file is still
  there afterwards; and a parent directory that \<open>util.IsEmpty\<close> reports empty stays when
  its removal is refused. Both are shown on concrete worlds.
\<close>

theorem RemoveTempFile_counterexample:
  "map_of (files a_world) [''tmp'', ''aria2'', ''1'', ''old.bin''] = Some File
   \<and> Path (Task a_world) = ''/tmp/aria2/1/old.bin''
   \<and> calls (RemoveTempFile active_ext a_world) =
       [EvRemove ''/tmp/aria2/1/old.bin'', EvIsEmpty ''/tmp/aria2/1'']
   \<and> files (RemoveTempFile active_ext a_world) = files a_world
   \<and> fst (plain_IsEmpty (files empty_dir_world) (Parent (Task empty_dir_world)))
   \<and> calls (RemoveTempFile readable_ext empty_dir_world) =
       [EvRemove ''/tmp/aria2/1/old.bin'', EvIsEmpty ''/tmp/aria2/1'', EvRemove ''/tmp/aria2/1'']
   \<and> files (RemoveTempFile readable_ext empty_dir_world) = files empty_dir_world
   \<and> map_of (files (RemoveTempFile readable_ext empty_dir_world)) [''tmp'', ''aria2'', ''1'']
       = Some Directory"
  by (simp add: RemoveTempFile_eq readable_ext_def active_ext_def empty_dir_world_def
      world_defs plain_defs)

text \<open>
  Claim C9, amended. \<open>RemoveTempFile\<close> calls \<open>os.Remove\<close> on the task's current path,
  then asks \<open>util.IsEmpty\<close> about the parent directory in the temp storage as the first
  call left it, and calls \<open>os.Remove\<close> on the parent if and only if the answer is that
  it is empty. It makes no other call, drops the results of both removals, and leaves
  the temp storage as its last removal call left it; the record is untouched.
\<close>

theorem RemoveTempFile_calls:
  assumes "fs1 = snd (os_Remove X (calls s) (files s) (Path (Task s)))"
    and "parent_empty =
           fst (util_IsEmpty X (calls s @ [EvRemove (Path (Task s))]) fs1 (Parent (Task s)))"
  shows "Task (RemoveTempFile X s) = Task s
       \<and> calls (RemoveTempFile X s) =
           calls s @ [EvRemove (Path (Task s)), EvIsEmpty (Parent (Task s))]
             @ (if parent_empty then [EvRemove (Parent (Task s))] else [])
       \<and> (EvRemove (Parent (Task s)) \<in> set (new_calls s (RemoveTempFile X s))
            \<longleftrightarrow> parent_empty \<or> Parent (Task s) = Path (Task s))
       \<and> (parent_empty \<longrightarrow>
            files (RemoveTempFile X s) =
              snd (os_Remove X (calls s @ [EvRemove (Path (Task s)), EvIsEmpty (Parent (Task s))])
                     fs1 (Parent (Task s))))
       \<and> (\<not> parent_empty \<longrightarrow> files (RemoveTempFile X s) = fs1)"
  using assms by (auto simp add: RemoveTempFile_eq Let_def new_calls_def)

theorem RemoveTempFile_calls_witness:
  "fst (util_IsEmpty (plain_os active_ext) (calls a_world @ [EvRemove (Path (Task a_world))])
          (snd (os_Remove (plain_os active_ext) (calls a_world) (files a_world) (Path (Task a_world))))
          (Parent (Task a_world)))
   \<and> calls (RemoveTempFile (plain_os active_ext) a_world) =
       [EvRemove ''/tmp/aria2/1/old.bin'', EvIsEmpty ''/tmp/aria2/1'', EvRemove ''/tmp/aria2/1'']
   \<and> files (RemoveTempFile (plain_os active_ext) a_world) =
       [([''tmp''], Directory), ([''tmp'', ''aria2''], Directory),
        ([''tmp'', ''aria2'', ''2''], Directory)]
   \<and> \<not> fst (util_IsEmpty (plain_os active_ext)
              (calls two_files_world @ [EvRemove (Path (Task two_files_world))])
              (snd (os_Remove (plain_os active_ext) (calls two_files_world) (files two_files_world)
                      (Path (Task two_files_world))))
              (Parent (Task two_files_world)))
   \<and> calls (RemoveTempFile (plain_os active_ext) two_files_world) =
       [EvRemove ''/tmp/aria2/1/old.bin'', EvIsEmpty ''/tmp/aria2/1'']
   \<and> files (RemoveTempFile (plain_os active_ext) two_files_world) =
       [([''tmp''], Directory), ([''tmp'', ''aria2''], Directory),
        ([''tmp'', ''aria2'', ''1''], Directory), ([''tmp'', ''aria2'', ''2''], Directory),
        ([''tmp'', ''aria2'', ''1'', ''other.bin''], File)]"
proof -
  let ?X = "plain_os active_ext"
  let ?fs1 = "snd (os_Remove ?X (calls a_world) (files a_world) (Path (Task a_world)))"
  let ?gs1 = "snd (os_Remove ?X (calls two_files_world) (files two_files_world)
                     (Path (Task two_files_world)))"
  have f1: "?fs1 = [([''tmp''], Directory), ([''tmp'', ''aria2''], Directory),
        ([''tmp'', ''aria2'', ''1''], Directory), ([''tmp'', ''aria2'', ''2''], Directory)]"
    and g1: "?gs1 = [([''tmp''], Directory), ([''tmp'', ''aria2''], Directory),
        ([''tmp'', ''aria2'', ''1''], Directory), ([''tmp'', ''aria2'', ''2''], Directory),
        ([''tmp'', ''aria2'', ''1'', ''other.bin''], File)]"
    by (simp_all add: two_files_world_def world_defs plain_defs)
  have e: "fst (util_IsEmpty ?X (calls a_world @ [EvRemove (Path (Task a_world))]) ?fs1
                  (Parent (Task a_world)))"
    unfolding f1 by (simp add: world_defs plain_defs)
  have ne: "\<not> fst (util_IsEmpty ?X (calls two_files_world @ [EvRemove (Path (Task two_files_world))])
                  ?gs1 (Parent (Task two_files_world)))"
    unfolding g1 by (simp add: two_files_world_def world_defs plain_defs)
  note T = RemoveTempFile_calls [OF refl refl, of ?X a_world]
  note U = RemoveTempFile_calls [OF refl refl, of ?X two_files_world]
  have 1: "calls (RemoveTempFile ?X a_world) =
       [EvRemove ''/tmp/aria2/1/old.bin'', EvIsEmpty ''/tmp/aria2/1'', EvRemove ''/tmp/aria2/1'']"
    using T e by (simp add: a_world_def a_task_def)
  have "files (RemoveTempFile ?X a_world) =
          snd (os_Remove ?X (calls a_world @ [EvRemove (Path (Task a_world)),
                 EvIsEmpty (Parent (Task a_world))]) ?fs1 (Parent (Task a_world)))"
    using T e by blast
  then have 2: "files (RemoveTempFile ?X a_world) =
       [([''tmp''], Directory), ([''tmp'', ''aria2''], Directory),
        ([''tmp'', ''aria2'', ''2''], Directory)]"
    unfolding f1 by (simp add: world_defs plain_defs)
  have 3: "calls (RemoveTempFile ?X two_files_world) =
       [EvRemove ''/tmp/aria2/1/old.bin'', EvIsEmpty ''/tmp/aria2/1'']"
    using U ne by (simp add: two_files_world_def a_world_def a_task_def)
  have "files (RemoveTempFile ?X two_files_world) = ?gs1"
    using U ne by blast
  then have 4: "files (RemoveTempFile ?X two_files_world) =
       [([''tmp''], Directory), ([''tmp'', ''aria2''], Directory),
        ([''tmp'', ''aria2'', ''1''], Directory), ([''tmp'', ''aria2'', ''2''], Directory),
        ([''tmp'', ''aria2'', ''1'', ''other.bin''], File)]"
    unfolding g1 .
  show ?thesis
    using e ne 1 2 3 4 by blast
qed

subsection \<open>The loop and the dispatcher\<close>

text \<open>
  In the schedule where the constructor subscribes before the loop serves its first
  wake-up, the monitor's calls to the dispatcher are the subscription under the
  identifier the task had at construction and, when pass \<open>n\<close> is the first to return
  true, the unsubscription under that same identifier.
\<close>

lemma NewMonitor_subscribe_first:
  assumes "m = w\<lparr>Task := task, Interval := GetIntSetting X ''aria2_interval'' 10,
                  calls := calls w @ [EvSubscribe (notifier w) (GID task)]\<rparr>"
    and "n < length ws"
    and "\<forall>i<n. \<not> fst (Update X (after_passes X i m))"
    and "fst (Update X (after_passes X n m))"
    and "final = Unsubscribe (GID task) (snd (Update X (after_passes X n m)))"
  shows "NewMonitor X ws 0 task w = Some final
       \<and> filter is_dispatcher_call (new_calls w final) =
           [EvSubscribe (notifier w) (GID task), EvUnsubscribe (GID task)]"
proof -
  let ?last = "snd (Update X (after_passes X n m))"
  have m: "Subscribe (notifier w) (GID task)
             (w\<lparr>Task := task, Interval := GetIntSetting X ''aria2_interval'' 10\<rparr>) = m"
    using assms(1) by (simp add: Subscribe_def called_def)
  have "fst (Loop_select X ws 0 m) \<and> snd (snd (Loop_select X ws 0 m)) = ?last"
    using Loop_select_stops [OF assms(2-4)] .
  then have nm: "NewMonitor X ws 0 task w = Some final"
    using m assms(5) by (simp add: NewMonitor_def Let_def split_beta)
  obtain ps where ps: "calls (after_passes X n m) = calls m @ ps" "\<not> list_ex is_dispatcher_call ps"
    using after_passes_dispatch [of X n m] by blast
  obtain us where us: "calls ?last = calls (after_passes X n m) @ us"
      "\<not> list_ex is_dispatcher_call us"
    using Update_dispatch [of X "after_passes X n m"] by blast
  have c: "calls final = calls ?last @ [EvUnsubscribe (GID task)]"
    using assms(5) by (simp add: Unsubscribe_def called_simps)
  have "new_calls w final =
          [EvSubscribe (notifier w) (GID task)] @ ps @ us @ [EvUnsubscribe (GID task)]"
    using c ps(1) us(1) assms(1) by (simp add: new_calls_def)
  then have d: "filter is_dispatcher_call (new_calls w final) =
           [EvSubscribe (notifier w) (GID task), EvUnsubscribe (GID task)]"
    using ps(2) us(2) by (simp add: list_ex_iff filter_empty_conv)
  show ?thesis
    using nm d by blast
qed

text \<open>
  Claim C1. The code does not keep to that schedule: it starts the loop before it
  subscribes. For a task whose engine first redirects from \<open>g1\<close> to \<open>g2\<close> and then
  reports the download removed, in the schedule where the loop's first pass runs before
  the constructor's \<open>Subscribe\<close>, the monitor subscribes under \<open>g2\<close> and, when the loop
  ends, unsubscribes \<open>g1\<close>: the key of the unsubscription is not the key under which the
  monitor subscribed, and the subscription under \<open>g2\<close> stays. In the schedule where
  \<open>Subscribe\<close> runs first, both calls use \<open>g1\<close>.
\<close>

theorem NewMonitor_raced_redirect:
  "map_option (\<lambda>s. filter is_dispatcher_call (calls s))
     (NewMonitor redirect_then_removed_ext three_wakes (Suc 0) a_task a_world)
     = Some [EvSubscribe 0 ''g2'', EvUnsubscribe ''g1'']
   \<and> map_option (\<lambda>s. GID (Task s))
     (NewMonitor redirect_then_removed_ext three_wakes (Suc 0) a_task a_world) = Some ''g2''
   \<and> map_option (\<lambda>s. filter is_dispatcher_call (calls s))
     (NewMonitor redirect_then_removed_ext three_wakes 0 a_task a_world)
     = Some [EvSubscribe 0 ''g1'', EvUnsubscribe ''g1'']"
  by (simp add: NewMonitor_def Subscribe_def Unsubscribe_def three_wakes_def
      redirect_then_removed_ext_def redirect_status_def removed_status_def run_defs world_defs)

end
